theory Spec2Isabelle
  imports Main "HOL-Library.Char_ord" "HOL-Library.List_Lexorder" "HOL-Library.AList"
begin

section \<open>Exceptions and the suppression helpers of lib/utils.py\<close>

text \<open>
  A Python class is its name and its bases; \<open>issubclass\<close> walks the bases. An exception
  value is its class and its message. A statement that may raise is a function from the
  state to a result (\<open>Inl\<close> the exception raised, \<open>Inr\<close> the value) and the state it leaves.
\<close>

datatype pyclass = PyClass (cname: string) (bases: "pyclass list")

fun issubclass :: "pyclass \<Rightarrow> pyclass \<Rightarrow> bool" where
  "issubclass (PyClass n bs) d = (PyClass n bs = d \<or> list_ex (\<lambda>b. issubclass b d) bs)"

datatype exn = Exn (exn_class: pyclass) (exn_msg: string)

definition BaseException :: pyclass where
  "BaseException = PyClass ''BaseException'' []"

definition Exception :: pyclass where
  "Exception = PyClass ''Exception'' [BaseException]"

definition KeyboardInterrupt :: pyclass where
  "KeyboardInterrupt = PyClass ''KeyboardInterrupt'' [BaseException]"

definition TypeError :: pyclass where
  "TypeError = PyClass ''TypeError'' [Exception]"

definition ValueError :: pyclass where
  "ValueError = PyClass ''ValueError'' [Exception]"

definition LookupError :: pyclass where
  "LookupError = PyClass ''LookupError'' [Exception]"

definition KeyError :: pyclass where
  "KeyError = PyClass ''KeyError'' [LookupError]"

definition AttributeError :: pyclass where
  "AttributeError = PyClass ''AttributeError'' [Exception]"

definition OSError :: pyclass where
  "OSError = PyClass ''OSError'' [Exception]"

text \<open>lib/utils.py, lines 6-11.\<close>

definition InputValidationException :: pyclass where
  "InputValidationException = PyClass ''InputValidationException'' [Exception]"

definition FatalRuntimeException :: pyclass where
  "FatalRuntimeException = PyClass ''FatalRuntimeException'' [Exception]"

text \<open>\<open>isinstance(e, classes)\<close> with a tuple of classes, as \<open>except classes:\<close> tests it.\<close>

definition isinstance :: "exn \<Rightarrow> pyclass list \<Rightarrow> bool" where
  "isinstance e classes = list_ex (issubclass (exn_class e)) classes"

type_synonym ('s, 'a) prog = "'s \<Rightarrow> (exn + 'a) \<times> 's"

definition raise_exn :: "exn \<Rightarrow> ('s, 'a) prog" where
  "raise_exn e s = (Inl e, s)"

definition return_val :: "'a \<Rightarrow> ('s, 'a) prog" where
  "return_val a s = (Inr a, s)"

definition bind :: "('s, 'a) prog \<Rightarrow> ('a \<Rightarrow> ('s, 'b) prog) \<Rightarrow> ('s, 'b) prog" where
  "bind m f s = (case m s of (Inl e, s') \<Rightarrow> (Inl e, s') | (Inr a, s') \<Rightarrow> f a s')"

text \<open>
  \<open>with ignore_exceptions(*exception_classes): body\<close> (lines 14-19): the body runs inside
  \<open>try\<close>; \<open>except exception_classes: pass\<close> swallows a matching exception, any other one
  leaves the \<open>with\<close> statement as it was raised.
\<close>

definition ignore_exceptions :: "pyclass list \<Rightarrow> ('s, 'a) prog \<Rightarrow> ('s, unit) prog" where
  "ignore_exceptions exception_classes body s =
     (case body s of
        (Inr _, s') \<Rightarrow> (Inr (), s')
      | (Inl e, s') \<Rightarrow>
          if isinstance e exception_classes then (Inr (), s') else (Inl e, s'))"

text \<open>
  \<open>with ignore_exceptions_except(*exception_classes): body\<close> (lines 22-28):
  \<open>except Exception as e: if isinstance(e, exception_classes): raise e\<close>.
\<close>

definition ignore_exceptions_except :: "pyclass list \<Rightarrow> ('s, 'a) prog \<Rightarrow> ('s, unit) prog" where
  "ignore_exceptions_except exception_classes body s =
     (case body s of
        (Inr _, s') \<Rightarrow> (Inr (), s')
      | (Inl e, s') \<Rightarrow>
          if isinstance e [Exception]
          then (if isinstance e exception_classes then (Inl e, s') else (Inr (), s'))
          else (Inl e, s'))"

section \<open>The logging module\<close>

text \<open>
  The part of Python 3's \<open>logging\<close> that lib/log_handling.py drives, as state. Level
  numbers are integers and level names strings; the keys of \<open>logging._nameToLevel\<close> are
  kept as Python values, since the source tests a number against them. A logger is
  known by its name (the root logger by the empty name) and holds references to
  handlers; handlers live in a store and are referred to by their index.
\<close>

datatype pykey = KStr string | KInt int

datatype stream = Stdout | Stderr | OtherStream nat

datatype destination = Stream stream | Path string

datatype pylevel = LevelNo int | LevelName string

record logrecord =
  levelno :: int
  rec_red :: bool

datatype log_filter = CustomLogFilter "int \<Rightarrow> bool"

datatype formatter_class =
    Formatter
  | CustomLogFormatter "logrecord \<Rightarrow> bool" "string \<Rightarrow> string" "(string \<Rightarrow> string) option"

record formatter =
  fmt_class :: formatter_class
  f_fmt :: string
  f_datefmt :: string

datatype handler_kind = StreamHandler | TimedRotatingFileHandler string nat | FileHandler

record handler =
  h_kind :: handler_kind
  h_target :: destination
  h_level :: int
  h_formatter :: "formatter option"
  h_filters :: "log_filter list"

record logger =
  lg_level :: int
  lg_handlers :: "nat list"

text \<open>
  The operating system as far as \<open>_prep_log_dir\<close> and the file handlers ask it: which
  paths exist, which are directories, whether \<open>os.makedirs\<close> and opening a file for
  appending succeed.
\<close>

record filesystem =
  fs_exists :: "string \<Rightarrow> bool"
  fs_isdir :: "string \<Rightarrow> bool"
  fs_can_makedirs :: "string \<Rightarrow> bool"
  fs_can_open :: "string \<Rightarrow> bool"

datatype log_fn = LoggerMethod string string | LevelLog nat int

text \<open>
  A \<open>LogManager\<close> object: the fields \<open>__init__\<close> sets (\<open>defaults\<close> is the dictionary
  with the two keys \<open>entry_format\<close> and \<open>date_format\<close>) and the attributes added with
  \<open>setattr\<close>, which are all logging functions.
\<close>

record log_manager =
  lm_name :: "string option"
  tz_aliases :: "string \<rightharpoonup> string"
  lm_logger :: string
  entry_format :: string
  date_format :: string
  log_funcs :: "string \<rightharpoonup> log_fn"
  lm_stdout_lvl :: int
  fn_attrs :: "string \<rightharpoonup> log_fn"

text \<open>
  The whole state: the class attributes \<open>LogManager._default_instance\<close> and
  \<open>LogManager._instances\<close>, the \<open>LogManager\<close> objects (a reference is an index), the
  tables and objects of \<open>logging\<close>, the file system, and what the program reads from
  its environment (the local time zone name, the user, the clock, and the call stack as a
  method of this module sees it when called from outside: for each frame, its own
  first, the stem of its source file, \<open>None\<close> where \<open>inspect.getsourcefile\<close> has none).
\<close>

record world =
  default_instance :: "nat option"
  instances :: "string \<rightharpoonup> nat"
  objects :: "log_manager list"
  levelToName :: "int \<rightharpoonup> string"
  nameToLevel :: "pykey \<rightharpoonup> int"
  loggers :: "string \<Rightarrow> logger"
  handler_objs :: "handler list"
  handlerList :: "nat list"
  fsys :: filesystem
  env_tz :: string
  env_user :: string
  env_now :: nat
  env_stack :: "string option list"

definition NOTSET :: int where "NOTSET = 0"
definition DEBUG :: int where "DEBUG = 10"
definition INFO :: int where "INFO = 20"
definition WARNING :: int where "WARNING = 30"

text \<open>\<open>logging.addLevelName(level, levelName)\<close> writes both tables.\<close>

definition addLevelName :: "int \<Rightarrow> string \<Rightarrow> world \<Rightarrow> world" where
  "addLevelName lvl levelName s =
     s\<lparr>levelToName := (levelToName s)(lvl \<mapsto> levelName),
       nameToLevel := (nameToLevel s)(KStr levelName \<mapsto> lvl)\<rparr>"

text \<open>
  \<open>logging.getLevelName\<close> of a string: the number registered under that name, else the
  string \<open>Level <name>\<close> (no key of \<open>_levelToName\<close> is a string).
\<close>

definition getLevelName :: "string \<Rightarrow> world \<Rightarrow> pylevel" where
  "getLevelName nm s =
     (case nameToLevel s (KStr nm) of
        Some n \<Rightarrow> LevelNo n
      | None \<Rightarrow> LevelName (''Level '' @ nm))"

text \<open>\<open>logging._checkLevel\<close>, which \<open>Handler.setLevel\<close> applies to its argument.\<close>

definition checkLevel :: "pylevel \<Rightarrow> world \<Rightarrow> exn + int" where
  "checkLevel lvl s =
     (case lvl of
        LevelNo n \<Rightarrow> Inr n
      | LevelName nm \<Rightarrow>
          (case nameToLevel s (KStr nm) of
             None \<Rightarrow> Inl (Exn ValueError (''Unknown level: '' @ nm))
           | Some n \<Rightarrow> Inr n))"

text \<open>\<open>logging.getLogger(name)\<close>: the root logger for \<open>None\<close> and for the empty name.\<close>

definition getLogger :: "string option \<Rightarrow> string" where
  "getLogger name = (case name of None \<Rightarrow> [] | Some n \<Rightarrow> n)"

definition update_logger :: "string \<Rightarrow> (logger \<Rightarrow> logger) \<Rightarrow> world \<Rightarrow> world" where
  "update_logger lg f s = s\<lparr>loggers := (loggers s)(lg := f (loggers s lg))\<rparr>"

definition Logger_setLevel :: "string \<Rightarrow> int \<Rightarrow> world \<Rightarrow> world" where
  "Logger_setLevel lg lvl s = update_logger lg (\<lambda>l. l\<lparr>lg_level := lvl\<rparr>) s"

text \<open>\<open>Logger.addHandler\<close>: \<open>if not (hdlr in self.handlers): self.handlers.append(hdlr)\<close>.\<close>

definition Logger_addHandler :: "string \<Rightarrow> nat \<Rightarrow> world \<Rightarrow> world" where
  "Logger_addHandler lg hdlr s =
     (if hdlr \<in> set (lg_handlers (loggers s lg)) then s
      else update_logger lg (\<lambda>l. l\<lparr>lg_handlers := lg_handlers l @ [hdlr]\<rparr>) s)"

text \<open>
  \<open>Handler.__init__\<close>: a new handler object with level \<open>NOTSET\<close>, no formatter and no
  filter, entered in \<open>logging._handlerList\<close>.
\<close>

definition new_handler :: "handler_kind \<Rightarrow> destination \<Rightarrow> world \<Rightarrow> nat \<times> world" where
  "new_handler k dst s =
     (length (handler_objs s),
      s\<lparr>handler_objs := handler_objs s @
           [\<lparr>h_kind = k, h_target = dst, h_level = NOTSET, h_formatter = None, h_filters = []\<rparr>],
        handlerList := handlerList s @ [length (handler_objs s)]\<rparr>)"

definition update_handler :: "nat \<Rightarrow> (handler \<Rightarrow> handler) \<Rightarrow> world \<Rightarrow> world" where
  "update_handler h f s = s\<lparr>handler_objs := (handler_objs s)[h := f (handler_objs s ! h)]\<rparr>"

definition Handler_setLevel :: "nat \<Rightarrow> pylevel \<Rightarrow> (world, unit) prog" where
  "Handler_setLevel h lvl s =
     (case checkLevel lvl s of
        Inl e \<Rightarrow> (Inl e, s)
      | Inr n \<Rightarrow> (Inr (), update_handler h (\<lambda>x. x\<lparr>h_level := n\<rparr>) s))"

definition Handler_setFormatter :: "nat \<Rightarrow> formatter \<Rightarrow> world \<Rightarrow> world" where
  "Handler_setFormatter h f s = update_handler h (\<lambda>x. x\<lparr>h_formatter := Some f\<rparr>) s"

definition Handler_addFilter :: "nat \<Rightarrow> log_filter \<Rightarrow> world \<Rightarrow> world" where
  "Handler_addFilter h f s = update_handler h (\<lambda>x. x\<lparr>h_filters := h_filters x @ [f]\<rparr>) s"

text \<open>
  Opening the log file, as the constructors of \<open>FileHandler\<close> and
  \<open>TimedRotatingFileHandler\<close> do before the handler exists.
\<close>

definition open_log_file :: "string \<Rightarrow> (world, unit) prog" where
  "open_log_file path s =
     (if fs_can_open (fsys s) path
      then (Inr (), s\<lparr>fsys := (fsys s)\<lparr>fs_exists := (fs_exists (fsys s))(path := True)\<rparr>\<rparr>)
      else (Inl (Exn OSError path), s))"

text \<open>\<open>os.makedirs\<close>; directories made on the way to the last one are not tracked.\<close>

definition makedirs :: "string \<Rightarrow> (world, unit) prog" where
  "makedirs d s =
     (if fs_can_makedirs (fsys s) d
      then (Inr (), s\<lparr>fsys := (fsys s)\<lparr>fs_exists := (fs_exists (fsys s))(d := True),
                                  fs_isdir := (fs_isdir (fsys s))(d := True)\<rparr>\<rparr>)
      else (Inl (Exn OSError d), s))"

text \<open>
  \<open>os.path.dirname\<close> on POSIX: the path up to its last slash, without trailing slashes
  unless it consists of slashes only.
\<close>

definition dirname :: "string \<Rightarrow> string" where
  "dirname p =
     (let head = rev (dropWhile (\<lambda>c. c \<noteq> CHR ''/'') (rev p))
      in if head \<noteq> [] \<and> head \<noteq> replicate (length head) CHR ''/''
         then rev (dropWhile (\<lambda>c. c = CHR ''/'') (rev head))
         else head)"

text \<open>\<open>str.replace(old, new)\<close> for a non-empty \<open>old\<close>: left to right, without overlaps.\<close>

function str_replace :: "string \<Rightarrow> string \<Rightarrow> string \<Rightarrow> string" where
  "str_replace old new [] = []"
| "str_replace old new (c # cs) =
     (if old \<noteq> [] \<and> take (length old) (c # cs) = old
      then new @ str_replace old new (drop (length old) (c # cs))
      else c # str_replace old new cs)"
  by pat_completeness auto
termination
  by (relation "measure (\<lambda>(old, new, s). length s)") auto

text \<open>\<open>"{}".format(n)\<close> for a natural number: its decimal digits.\<close>

fun str_of_nat :: "nat \<Rightarrow> string" where
  "str_of_nat n =
     (if n < 10 then [char_of (48 + n)]
      else str_of_nat (n div 10) @ [char_of (48 + n mod 10)])"

declare str_of_nat.simps [simp del]

text \<open>The state of a process that has imported \<open>logging\<close> and done nothing else.\<close>

definition lastResort :: handler where
  "lastResort = \<lparr>h_kind = StreamHandler, h_target = Stream Stderr, h_level = WARNING,
                 h_formatter = None, h_filters = []\<rparr>"

definition initial_world :: "filesystem \<Rightarrow> string \<Rightarrow> string \<Rightarrow> nat \<Rightarrow> string option list \<Rightarrow> world" where
  "initial_world f tz u t st =
     \<lparr>default_instance = None,
      instances = Map.empty,
      objects = [],
      levelToName = [50 \<mapsto> ''CRITICAL'', 40 \<mapsto> ''ERROR'', 30 \<mapsto> ''WARNING'',
                     20 \<mapsto> ''INFO'', 10 \<mapsto> ''DEBUG'', 0 \<mapsto> ''NOTSET''],
      nameToLevel = [KStr ''CRITICAL'' \<mapsto> 50, KStr ''FATAL'' \<mapsto> 50, KStr ''ERROR'' \<mapsto> 40,
                     KStr ''WARN'' \<mapsto> 30, KStr ''WARNING'' \<mapsto> 30, KStr ''INFO'' \<mapsto> 20,
                     KStr ''DEBUG'' \<mapsto> 10, KStr ''NOTSET'' \<mapsto> 0],
      loggers = (\<lambda>n. \<lparr>lg_level = (if n = [] then WARNING else NOTSET), lg_handlers = []\<rparr>),
      handler_objs = [lastResort],
      handlerList = [0],
      fsys = f, env_tz = tz, env_user = u, env_now = t, env_stack = st\<rparr>"


section \<open>LogManager (lib/log_handling.py)\<close>

text \<open>
  What \<open>getattr(self, fn_name)\<close> finds on a \<open>LogManager\<close> object: an attribute added
  with \<open>setattr\<close>, a field set by \<open>__init__\<close>, an attribute of the class, or one that
  every object inherits.
\<close>

definition instance_fields :: "string list" where
  "instance_fields =
     [''name'', ''tz_aliases'', ''logger'', ''defaults'', ''log_funcs'', ''stdout_lvl'']"

definition class_attributes :: "string list" where
  "class_attributes =
     [''_default_instance'', ''_instances'', ''get_instance'', ''__init__'',
      ''_set_instance'', ''get_log_funcs'', ''create_default_stream_logger'',
      ''create_default_logger'', ''set_timezone_alias'', ''create_filter'',
      ''create_formatter'', ''_prep_log_dir'', ''add_level'', ''_add_log_function'',
      ''add_handler'', ''init_default_stream_logger'', ''init_default_logger'']"

definition object_attributes :: "string list" where
  "object_attributes =
     [''__class__'', ''__delattr__'', ''__dict__'', ''__dir__'', ''__doc__'', ''__eq__'',
      ''__format__'', ''__ge__'', ''__getattribute__'', ''__gt__'', ''__hash__'',
      ''__init_subclass__'', ''__le__'', ''__lt__'', ''__module__'', ''__ne__'',
      ''__new__'', ''__reduce__'', ''__reduce_ex__'', ''__repr__'', ''__setattr__'',
      ''__sizeof__'', ''__str__'', ''__subclasshook__'', ''__weakref__'']"

definition has_attribute :: "log_manager \<Rightarrow> string \<Rightarrow> bool" where
  "has_attribute m n =
     (fn_attrs m n \<noteq> None \<or> n \<in> set instance_fields \<or> n \<in> set class_attributes
      \<or> n \<in> set object_attributes)"

text \<open>
  A method call through a reference. Every reference the program holds denotes an
  object; for an index that denotes none the model raises and leaves the state.
\<close>

definition method_call :: "nat \<Rightarrow> (log_manager \<Rightarrow> (world, 'a) prog) \<Rightarrow> (world, 'a) prog" where
  "method_call self body s =
     (if self < length (objects s) then body (objects s ! self) s
      else (Inl (Exn AttributeError ''no such object''), s))"

definition update_obj :: "nat \<Rightarrow> (log_manager \<Rightarrow> log_manager) \<Rightarrow> world \<Rightarrow> world" where
  "update_obj self f s = s\<lparr>objects := (objects s)[self := f (objects s ! self)]\<rparr>"

text \<open>\<open>_set_instance\<close> (lines 56-61).\<close>

definition set_instance :: "string option \<Rightarrow> nat \<Rightarrow> world \<Rightarrow> world" where
  "set_instance name inst s =
     (case name of
        None \<Rightarrow> s\<lparr>default_instance := Some inst\<rparr>
      | Some n \<Rightarrow> s\<lparr>instances := (instances s)(n \<mapsto> inst)\<rparr>)"

text \<open>The registry as one mapping from an optional name to a reference.\<close>

definition registry :: "world \<Rightarrow> string option \<Rightarrow> nat option" where
  "registry s name = (case name of None \<Rightarrow> default_instance s | Some n \<Rightarrow> instances s n)"

text \<open>
  \<open>_add_log_function\<close> (lines 167-175): the closure \<open>_log\<close> over \<open>self\<close> and
  \<open>level_number\<close> becomes an attribute and an entry of \<open>log_funcs\<close>. It is called from
  \<open>add_level\<close> only, with a name that is no attribute yet.
\<close>

definition add_log_function :: "nat \<Rightarrow> int \<Rightarrow> string \<Rightarrow> (world, unit) prog" where
  "add_log_function self level_number fn_name s =
     (Inr (), update_obj self
        (\<lambda>m. m\<lparr>fn_attrs := (fn_attrs m)(fn_name \<mapsto> LevelLog self level_number),
                log_funcs := (log_funcs m)(fn_name \<mapsto> LevelLog self level_number)\<rparr>) s)"

text \<open>
  \<open>add_level\<close> (lines 150-165). The \<open>except AttributeError\<close> branch is the one where
  \<open>getattr\<close> finds nothing; the \<open>else\<close> branch raises.
\<close>

definition add_level :: "nat \<Rightarrow> int \<Rightarrow> string \<Rightarrow> string option \<Rightarrow> (world, unit) prog" where
  "add_level self level_number level_name fn_name =
     method_call self (\<lambda>m s.
       let fn_name = (case fn_name of Some f \<Rightarrow> f | None \<Rightarrow> level_name) in
       if \<not> has_attribute m fn_name
       then add_log_function self level_number fn_name
              (if nameToLevel s (KStr level_name) = None
                  \<and> nameToLevel s (KInt level_number) = None
               then addLevelName level_number level_name s
               else s)
       else (Inl (Exn InputValidationException
                    (''This LogManager already has a method called '' @ [CHR 0x27] @ fn_name
                      @ [CHR 0x27])), s))"

text \<open>
  \<open>__init__\<close> (lines 35-54). The new object is the next index of the store; the seven
  methods of the logger become attributes and entries of \<open>log_funcs\<close>.
\<close>

definition logger_methods :: "string list" where
  "logger_methods =
     [''debug'', ''info'', ''warning'', ''error'', ''critical'', ''exception'', ''log'']"

definition LogManager_init ::
  "string option \<Rightarrow> string option \<Rightarrow> string option \<Rightarrow> bool \<Rightarrow> (world, nat) prog" where
  "LogManager_init name entry_fmt date_fmt replace_handlers s =
     (let self = length (objects s);
          entry_fmt = (case entry_fmt of Some f \<Rightarrow> f | None \<Rightarrow> ''%(message)s'');
          date_fmt = (case date_fmt of Some d \<Rightarrow> d | None \<Rightarrow> ''%Y-%m-%d %H:%M:%S %Z'');
          s1 = (if name \<noteq> None \<and> length (handlerList s) < 1
                then Logger_setLevel (getLogger None) NOTSET s else s);
          lg = getLogger name;
          s2 = (if replace_handlers
                then update_logger lg (\<lambda>l. l\<lparr>lg_handlers := []\<rparr>) s1 else s1);
          s3 = Logger_setLevel lg NOTSET s2;
          funcs = map_of (map (\<lambda>fn. (fn, LoggerMethod lg fn)) logger_methods);
          m = \<lparr>lm_name = name,
               tz_aliases = [''Eastern Standard Time'' \<mapsto> ''EST'',
                             ''Eastern Daylight Time'' \<mapsto> ''EDT''],
               lm_logger = lg, entry_format = entry_fmt, date_format = date_fmt,
               log_funcs = funcs, lm_stdout_lvl = INFO, fn_attrs = funcs\<rparr>;
          s4 = s3\<lparr>objects := objects s3 @ [m]\<rparr>
      in bind (ignore_exceptions [InputValidationException]
                 (add_level self 19 ''VERBOSE'' (Some ''verbose'')))
              (\<lambda>_ s5. (Inr self, set_instance name self s5)) s4)"

definition get_log_funcs :: "nat \<Rightarrow> (world, string \<rightharpoonup> log_fn) prog" where
  "get_log_funcs self = method_call self (\<lambda>m s. (Inr (log_funcs m), s))"

definition set_timezone_alias :: "nat \<Rightarrow> string \<Rightarrow> string \<Rightarrow> (world, unit) prog" where
  "set_timezone_alias self original alias =
     method_call self (\<lambda>m s.
       (Inr (), update_obj self (\<lambda>m. m\<lparr>tz_aliases := (tz_aliases m)(original \<mapsto> alias)\<rparr>) s))"

text \<open>
  \<open>create_filter\<close> (lines 98-109) and the \<open>filter\<close> method of the class it makes;
  a handler lets a record through when each of its filters does.
\<close>

definition create_filter :: "(int \<Rightarrow> bool) \<Rightarrow> log_filter" where
  "create_filter filter_fn = CustomLogFilter filter_fn"

fun filter_record :: "log_filter \<Rightarrow> logrecord \<Rightarrow> bool" where
  "filter_record (CustomLogFilter filter_fn) r = filter_fn (levelno r)"

definition handler_filter :: "handler \<Rightarrow> logrecord \<Rightarrow> bool" where
  "handler_filter h r = list_all (\<lambda>f. filter_record f r) (h_filters h)"

text \<open>
  \<open>create_formatter\<close> (lines 111-129) and the \<open>format\<close> method of the class it makes,
  over the \<open>format\<close> of \<open>logging.Formatter\<close>.
\<close>

definition create_formatter ::
  "(logrecord \<Rightarrow> bool) \<Rightarrow> (string \<Rightarrow> string) \<Rightarrow> (string \<Rightarrow> string) option \<Rightarrow> formatter_class" where
  "create_formatter should_format_fn cond_fmt_fn always_fmt_fn =
     CustomLogFormatter should_format_fn cond_fmt_fn always_fmt_fn"

definition format_record ::
  "(formatter \<Rightarrow> logrecord \<Rightarrow> string) \<Rightarrow> formatter \<Rightarrow> logrecord \<Rightarrow> string" where
  "format_record base f r =
     (case fmt_class f of
        Formatter \<Rightarrow> base f r
      | CustomLogFormatter should_format_fn cond_fmt_fn always_fmt_fn \<Rightarrow>
          (let formatted = base f r;
               formatted = (case always_fmt_fn of Some g \<Rightarrow> g formatted | None \<Rightarrow> formatted)
           in if should_format_fn r then cond_fmt_fn formatted else formatted))"

text \<open>\<open>termcolor.colored(msg, "red")\<close> with colours enabled.\<close>

definition colored_red :: "string \<Rightarrow> string" where
  "colored_red msg = [CHR 0x1B] @ ''[31m'' @ msg @ [CHR 0x1B] @ ''[0m''"

text \<open>
  \<open>_prep_log_dir\<close> (lines 131-148). The \<open>chmod\<close> of a new directory under /var/tmp
  and its swallowed \<open>OSError\<close> change nothing that the state records.
\<close>

definition prep_log_dir :: "string \<Rightarrow> (world, unit) prog" where
  "prep_log_dir log_path s =
     (let log_dir = dirname log_path in
      if fs_exists (fsys s) log_dir
      then (if \<not> fs_isdir (fsys s) log_dir
            then (Inl (Exn InputValidationException
                         (''Invalid log file dir - not a directory: '' @ log_dir)), s)
            else (Inr (), s))
      else makedirs log_dir s)"

text \<open>Lines 191-198 of \<open>add_handler\<close>: the handler object for the destination.\<close>

definition create_handler :: "destination \<Rightarrow> bool \<Rightarrow> (world, nat) prog" where
  "create_handler destination rotate_arg =
     (case destination of
        Stream st \<Rightarrow> (\<lambda>s. case new_handler StreamHandler destination s of (h, s') \<Rightarrow> (Inr h, s'))
      | Path p \<Rightarrow>
          bind (prep_log_dir p) (\<lambda>_.
          bind (open_log_file p) (\<lambda>_ s.
            case new_handler
                   (if rotate_arg then TimedRotatingFileHandler ''midnight'' 7 else FileHandler)
                   destination s
            of (h, s') \<Rightarrow> (Inr h, s'))))"

text \<open>\<open>add_handler\<close> (lines 177-208).\<close>

definition add_handler ::
  "nat \<Rightarrow> destination \<Rightarrow> pylevel \<Rightarrow> string option \<Rightarrow> string option \<Rightarrow> log_filter option
     \<Rightarrow> bool \<Rightarrow> formatter_class option \<Rightarrow> (world, unit) prog" where
  "add_handler self destination lvl fmt date_fmt flt rotate_arg formatter_cls =
     method_call self (\<lambda>m.
       let entry_fmt = (case fmt of Some f \<Rightarrow> f | None \<Rightarrow> entry_format m);
           date_fmt = (case date_fmt of Some d \<Rightarrow> d | None \<Rightarrow> date_format m);
           formatter_cls = (case formatter_cls of Some c \<Rightarrow> c | None \<Rightarrow> Formatter)
       in bind (create_handler destination rotate_arg) (\<lambda>hdlr s.
            let tz = env_tz s;
                date_fmt = (case tz_aliases m tz of
                              Some alias \<Rightarrow> str_replace ''%Z'' alias date_fmt
                            | None \<Rightarrow> date_fmt)
            in bind (Handler_setLevel hdlr lvl) (\<lambda>_ s1.
                 let s2 = Handler_setFormatter hdlr
                            \<lparr>fmt_class = formatter_cls, f_fmt = entry_fmt, f_datefmt = date_fmt\<rparr> s1;
                     s3 = (case flt of Some f \<Rightarrow> Handler_addFilter hdlr f s2 | None \<Rightarrow> s2)
                 in (Inr (), Logger_addHandler (lm_logger m) hdlr s3)) s))"

text \<open>\<open>init_default_stream_logger\<close> (lines 210-223).\<close>

definition init_default_stream_logger :: "nat \<Rightarrow> bool \<Rightarrow> bool \<Rightarrow> (world, unit) prog" where
  "init_default_stream_logger self debug verbose s =
     (let stderr_filter = create_filter (\<lambda>lvl. lvl \<ge> WARNING);
          stdout_filter = create_filter (\<lambda>lvl. lvl < WARNING);
          stdout_level = (if debug then LevelNo DEBUG else LevelNo INFO);
          stdout_level = (if verbose then getLevelName ''VERBOSE'' s else stdout_level);
          red_formatter = create_formatter rec_red colored_red None
      in bind (add_handler self (Stream Stdout) stdout_level None None (Some stdout_filter)
                 True None)
              (\<lambda>_. add_handler self (Stream Stderr) (LevelNo INFO)
                      (Some ''%(levelname)s %(message)s'') None (Some stderr_filter) True
                      (Some red_formatter)) s)"

text \<open>
  \<open>init_default_logger\<close> (lines 225-253). \<open>this_file\<close> is the stem of
  lib/log_handling.py; the loop walks the stack from index 1, \<open>frames\<close> being what is
  left of it: a frame without source file gives the \<open>TypeError\<close> branch, the end of
  the stack the \<open>IndexError\<close> branch.
\<close>

definition this_file :: string where
  "this_file = ''log_handling''"

fun calling_module_loop :: "string \<Rightarrow> string option list \<Rightarrow> string" where
  "calling_module_loop calling_module [] = calling_module"
| "calling_module_loop calling_module (f # frames) =
     (if calling_module \<noteq> this_file then calling_module
      else calling_module_loop
             (case f of None \<Rightarrow> this_file @ ''_interactive'' | Some stem \<Rightarrow> stem) frames)"

definition init_default_logger ::
  "nat \<Rightarrow> bool \<Rightarrow> bool \<Rightarrow> string option \<Rightarrow> (world, string) prog" where
  "init_default_logger self debug verbose log_path =
     bind (init_default_stream_logger self debug verbose) (\<lambda>_ s.
       let log_path =
             (case log_path of
                Some p \<Rightarrow> p
              | None \<Rightarrow> ''/var/tmp/'' @ calling_module_loop this_file (drop 1 (env_stack s))
                         @ ''_'' @ env_user s @ ''_'' @ str_of_nat (env_now s) @ ''.log'');
           file_fmt = ''%(asctime)s %(levelname)s %(funcName)s:%(lineno)d %(message)s'';
           cr_stripper = create_formatter (\<lambda>r. True) (str_replace [CHR 0x0D] []) None
       in bind (add_handler self (Path log_path) (LevelNo DEBUG) (Some file_fmt) None None
                  True (Some cr_stripper))
               (\<lambda>_. return_val log_path) s)"

text \<open>
  The two factory class methods (lines 66-89) with the constructor's arguments, and
  \<open>get_instance\<close> (lines 21-30). A method of this module that calls another one puts
  its own frame on the stack for the time of the call.
\<close>

record ctor_args =
  c_name :: "string option"
  c_entry_fmt :: "string option"
  c_date_fmt :: "string option"
  c_replace_handlers :: bool

definition in_frame :: "(world, 'a) prog \<Rightarrow> (world, 'a) prog" where
  "in_frame body s =
     (case body (s\<lparr>env_stack := Some this_file # env_stack s\<rparr>) of
        (r, s') \<Rightarrow> (r, s'\<lparr>env_stack := env_stack s\<rparr>))"

definition create_default_stream_logger :: "bool \<Rightarrow> bool \<Rightarrow> ctor_args \<Rightarrow> (world, nat) prog" where
  "create_default_stream_logger debug verbose args =
     bind (LogManager_init (c_name args) (c_entry_fmt args) (c_date_fmt args)
             (c_replace_handlers args))
          (\<lambda>lm. bind (init_default_stream_logger lm debug verbose) (\<lambda>_. return_val lm))"

definition create_default_logger ::
  "bool \<Rightarrow> bool \<Rightarrow> string option \<Rightarrow> ctor_args \<Rightarrow> (world, nat \<times> string) prog" where
  "create_default_logger debug verbose log_path args =
     bind (LogManager_init (c_name args) (c_entry_fmt args) (c_date_fmt args)
             (c_replace_handlers args))
          (\<lambda>lm. bind (in_frame (init_default_logger lm debug verbose log_path))
                   (\<lambda>actual_path. return_val (lm, actual_path)))"

text \<open>
  \<open>get_instance(name, *args, **kwargs)\<close>: \<open>debug\<close> and \<open>verbose\<close> are the first two
  of \<open>args\<close>; \<open>third\<close> is the third one when it is given, which the constructor takes
  as its \<open>name\<close>. With a name, the call passes \<open>name=name\<close> as well, and a third
  positional argument is a \<open>TypeError\<close>. The result is \<open>None\<close> where Python returns
  \<open>None\<close>.
\<close>

definition get_instance ::
  "string option \<Rightarrow> bool \<Rightarrow> bool \<Rightarrow> string option option \<Rightarrow> string option \<Rightarrow> string option
     \<Rightarrow> bool \<Rightarrow> (world, nat option) prog" where
  "get_instance name debug verbose third entry_fmt date_fmt replace_handlers s =
     (case name of
        None \<Rightarrow>
          (if default_instance s = None
           then bind (create_default_stream_logger debug verbose
                        \<lparr>c_name = (case third of Some n \<Rightarrow> n | None \<Rightarrow> None),
                         c_entry_fmt = entry_fmt, c_date_fmt = date_fmt,
                         c_replace_handlers = replace_handlers\<rparr>)
                  (\<lambda>_ s'. (Inr (default_instance s'), s')) s
           else (Inr (default_instance s), s))
      | Some n \<Rightarrow>
          (if instances s n = None
           then (if third \<noteq> None
                 then (Inl (Exn TypeError ''__init__() got multiple values for argument name''), s)
                 else bind (create_default_stream_logger debug verbose
                              \<lparr>c_name = Some n, c_entry_fmt = entry_fmt, c_date_fmt = date_fmt,
                               c_replace_handlers = replace_handlers\<rparr>)
                        (\<lambda>_ s'. case instances s' n of
                                  None \<Rightarrow> (Inl (Exn KeyError n), s')
                                | Some i \<Rightarrow> (Inr (Some i), s')) s)
           else (Inr (instances s n), s)))"

text \<open>The operations a program can apply to the state, and a run of them.\<close>

datatype op =
    Construct "string option" "string option" "string option" bool
  | GetInstance "string option" bool bool "string option option" "string option"
      "string option" bool
  | CreateDefaultStreamLogger bool bool ctor_args
  | CreateDefaultLogger bool bool "string option" ctor_args
  | SetTimezoneAlias nat string string
  | AddLevel nat int string "string option"
  | AddHandler nat destination pylevel "string option" "string option" "log_filter option"
      bool "formatter_class option"
  | InitDefaultStreamLogger nat bool bool
  | InitDefaultLogger nat bool bool "string option"

fun exec_op :: "op \<Rightarrow> world \<Rightarrow> world" where
  "exec_op (Construct name entry_fmt date_fmt rh) s =
     snd (LogManager_init name entry_fmt date_fmt rh s)"
| "exec_op (GetInstance name debug verbose third entry_fmt date_fmt rh) s =
     snd (get_instance name debug verbose third entry_fmt date_fmt rh s)"
| "exec_op (CreateDefaultStreamLogger debug verbose args) s =
     snd (create_default_stream_logger debug verbose args s)"
| "exec_op (CreateDefaultLogger debug verbose log_path args) s =
     snd (create_default_logger debug verbose log_path args s)"
| "exec_op (SetTimezoneAlias self original alias) s =
     snd (set_timezone_alias self original alias s)"
| "exec_op (AddLevel self level_number level_name fn_name) s =
     snd (add_level self level_number level_name fn_name s)"
| "exec_op (AddHandler self destination lvl fmt date_fmt flt rotate_arg formatter_cls) s =
     snd (add_handler self destination lvl fmt date_fmt flt rotate_arg formatter_cls s)"
| "exec_op (InitDefaultStreamLogger self debug verbose) s =
     snd (init_default_stream_logger self debug verbose s)"
| "exec_op (InitDefaultLogger self debug verbose log_path) s =
     snd (init_default_logger self debug verbose log_path s)"

definition run :: "op list \<Rightarrow> world \<Rightarrow> world" where
  "run ops s = fold exec_op ops s"


section \<open>The demo server (asyncio_server_test.py)\<close>

text \<open>
  \<open>html.escape\<close> of the standard library, with quotes: five replacements, one after
  the other, the ampersand first.
\<close>

definition html_escape :: "string \<Rightarrow> string" where
  "html_escape s =
     str_replace [CHR 0x27] ''&#x27;''
       (str_replace [CHR 0x22] ''&quot;''
          (str_replace ''>'' ''&gt;''
             (str_replace ''<'' ''&lt;''
                (str_replace ''&'' ''&amp;'' s))))"














section \<open>Concrete states\<close>

text \<open>
  A file system with /var/tmp and /etc as directories and /etc/hosts as a file, a fresh
  process on it, and the same process after \<open>LogManager()\<close>.
\<close>

definition fs0 :: filesystem where
  "fs0 = \<lparr>fs_exists = (\<lambda>p. p \<in> set [''/'', ''/var/tmp'', ''/etc'', ''/etc/hosts'']),
          fs_isdir = (\<lambda>p. p \<in> set [''/'', ''/var/tmp'', ''/etc'']),
          fs_can_makedirs = (\<lambda>p. p = ''/var/tmp/logs''),
          fs_can_open = (\<lambda>p. dirname p \<in> set [''/var/tmp'', ''/var/tmp/logs''])\<rparr>"

definition world0 :: world where
  "world0 = initial_world fs0 ''UTC'' ''root'' 1700000000 [Some ''log_handling'', Some ''app'']"

definition world1 :: world where
  "world1 = snd (LogManager_init None None None True world0)"

section \<open>Invariants of the state\<close>

text \<open>
  Every handler a logger refers to is in the handler store; no logger refers to a
  handler twice; once a \<open>LogManager\<close> exists, the level name \<open>VERBOSE\<close> is registered;
  every reference in the registry denotes an object.
\<close>

definition handlers_allocated :: "world \<Rightarrow> bool" where
  "handlers_allocated s =
     (\<forall>lg. \<forall>h \<in> set (lg_handlers (loggers s lg)). h < length (handler_objs s))"

definition handlers_distinct :: "world \<Rightarrow> bool" where
  "handlers_distinct s = (\<forall>lg. distinct (lg_handlers (loggers s lg)))"

definition verbose_registered :: "world \<Rightarrow> bool" where
  "verbose_registered s = (objects s \<noteq> [] \<longrightarrow> nameToLevel s (KStr ''VERBOSE'') \<noteq> None)"

definition registry_valid :: "world \<Rightarrow> bool" where
  "registry_valid s = (\<forall>n r. registry s n = Some r \<longrightarrow> r < length (objects s))"

text \<open>No key of \<open>logging._nameToLevel\<close> is a number.\<close>

definition names_are_strings :: "world \<Rightarrow> bool" where
  "names_are_strings s = (\<forall>i. nameToLevel s (KInt i) = None)"

text \<open>The part of the state that creating and attaching handlers leaves alone.\<close>

definition config :: "world \<Rightarrow> (nat option \<times> (string \<rightharpoonup> nat) \<times> log_manager list)
     \<times> ((int \<rightharpoonup> string) \<times> (pykey \<rightharpoonup> int)) \<times> (string \<times> string \<times> nat \<times> string option list)" where
  "config s = ((default_instance s, instances s, objects s), (levelToName s, nameToLevel s),
               (env_tz s, env_user s, env_now s, env_stack s))"

text \<open>
  The invariant of a run; \<open>D\<close> is a set of names that the registry must keep.
\<close>

definition invariant :: "(string option \<Rightarrow> bool) \<Rightarrow> world \<Rightarrow> bool" where
  "invariant D s =
     (handlers_allocated s \<and> handlers_distinct s \<and> verbose_registered s \<and> registry_valid s
      \<and> names_are_strings s \<and> (\<forall>n. D n \<longrightarrow> registry s n \<noteq> None))"

text \<open>
  The sinks of a logger: the destination of each of its handlers, in their order. Two
  handlers for one destination make every entry appear twice there.
\<close>

definition handler_targets :: "world \<Rightarrow> string \<Rightarrow> destination list" where
  "handler_targets s lg = map (\<lambda>h. h_target (handler_objs s ! h)) (lg_handlers (loggers s lg))"


section \<open>Theorems\<close>

subsection \<open>Effects of the operations\<close>

lemma checkLevel_config: "config s' = config s \<Longrightarrow> checkLevel lvl s' = checkLevel lvl s"
  by (cases lvl) (simp_all add: checkLevel_def config_def)

lemmas create_defs = create_handler_def bind_def prep_log_dir_def makedirs_def
  open_log_file_def new_handler_def Let_def

lemma create_handler_config: "config (snd (create_handler d r s)) = config s"
  by (cases d) (simp_all add: create_defs config_def)

lemma create_handler_loggers: "loggers (snd (create_handler d r s)) = loggers s"
  by (cases d) (simp_all add: create_defs)

lemma create_handler_Inr:
  "create_handler d r s = (Inr h, s1) \<Longrightarrow>
     h = length (handler_objs s) \<and>
     handler_objs s1 = handler_objs s @
       [\<lparr>h_kind = (case d of Stream st \<Rightarrow> StreamHandler
                    | Path p \<Rightarrow> if r then TimedRotatingFileHandler ''midnight'' 7 else FileHandler),
         h_target = d, h_level = NOTSET, h_formatter = None, h_filters = []\<rparr>]"
  by (cases d) (auto simp: create_defs split: if_splits)

lemma create_handler_Inl:
  "create_handler d r s = (Inl e, s1) \<Longrightarrow> handler_objs s1 = handler_objs s"
  by (cases d) (auto simp: create_defs split: if_splits)

lemma create_handler_returns:
  "(\<exists>h s1. create_handler d r s = (Inr h, s1)) \<longleftrightarrow>
     (case d of Stream st \<Rightarrow> True
      | Path p \<Rightarrow> (if fs_exists (fsys s) (dirname p) then fs_isdir (fsys s) (dirname p)
                   else fs_can_makedirs (fsys s) (dirname p)) \<and> fs_can_open (fsys s) p)"
  by (cases d) (auto simp: create_defs split: if_splits)

text \<open>
  \<open>add_handler\<close> on an existing object, by the outcome of making the handler and of
  checking the level.
\<close>

lemma add_handler_unfold:
  "self < length (objects s) \<Longrightarrow>
   add_handler self d lvl fm df flt r fc s =
     (case create_handler d r s of
        (Inl e, s1) \<Rightarrow> (Inl e, s1)
      | (Inr h, s1) \<Rightarrow>
          (case checkLevel lvl s1 of
             Inl e \<Rightarrow> (Inl e, s1)
           | Inr n \<Rightarrow>
               (Inr (),
                Logger_addHandler (lm_logger (objects s ! self)) h
                  ((case flt of Some f \<Rightarrow> Handler_addFilter h f | None \<Rightarrow> (\<lambda>x. x))
                     (Handler_setFormatter h
                        \<lparr>fmt_class = (case fc of Some c \<Rightarrow> c | None \<Rightarrow> Formatter),
                         f_fmt = (case fm of Some f \<Rightarrow> f | None \<Rightarrow> entry_format (objects s ! self)),
                         f_datefmt =
                           (case tz_aliases (objects s ! self) (env_tz s1) of
                              Some alias \<Rightarrow> str_replace ''%Z'' alias
                                 (case df of Some d \<Rightarrow> d | None \<Rightarrow> date_format (objects s ! self))
                            | None \<Rightarrow> (case df of Some d \<Rightarrow> d | None \<Rightarrow> date_format (objects s ! self)))\<rparr>
                        (update_handler h (\<lambda>x. x\<lparr>h_level := n\<rparr>) s1))))))"
  by (simp add: add_handler_def method_call_def bind_def Handler_setLevel_def Let_def
        split: prod.splits sum.splits option.splits)


lemmas attach_defs = Logger_addHandler_def Handler_setFormatter_def Handler_addFilter_def
  update_handler_def update_logger_def

lemma add_handler_Inl:
  assumes "add_handler self d lvl fm df flt r fc s = (Inl e, s')"
  shows "config s' = config s \<and> loggers s' = loggers s
         \<and> length (handler_objs s) \<le> length (handler_objs s')"
proof (cases "self < length (objects s)")
  case False
  with assms show ?thesis by (simp add: add_handler_def method_call_def)
next
  case True
  obtain res s1 where c: "create_handler d r s = (res, s1)" by (cases "create_handler d r s")
  from c have cfg: "config s1 = config s" using create_handler_config [of d r s] by simp
  from c have lgs: "loggers s1 = loggers s" using create_handler_loggers [of d r s] by simp
  show ?thesis
  proof (cases res)
    case (Inl e1)
    with c have "handler_objs s1 = handler_objs s" using create_handler_Inl by blast
    with assms True c Inl cfg lgs show ?thesis by (simp add: add_handler_unfold)
  next
    case (Inr h)
    with c have "length (handler_objs s) \<le> length (handler_objs s1)"
      using create_handler_Inr [of d r s h s1] by simp
    with assms True c Inr cfg lgs show ?thesis
      by (cases "checkLevel lvl s1") (simp_all add: add_handler_unfold)
  qed
qed

lemma add_handler_Inr:
  assumes valid: "self < length (objects s)"
      and ok: "add_handler self d lvl fm df flt r fc s = (Inr (), s')"
  shows "config s' = config s"
    and "\<exists>n. checkLevel lvl s = Inr n \<and>
           handler_objs s' = handler_objs s @
             [\<lparr>h_kind = (case d of Stream st \<Rightarrow> StreamHandler
                          | Path p \<Rightarrow> if r then TimedRotatingFileHandler ''midnight'' 7
                                      else FileHandler),
               h_target = d, h_level = n,
               h_formatter = Some
                 \<lparr>fmt_class = (case fc of Some c \<Rightarrow> c | None \<Rightarrow> Formatter),
                  f_fmt = (case fm of Some f \<Rightarrow> f | None \<Rightarrow> entry_format (objects s ! self)),
                  f_datefmt =
                    (case tz_aliases (objects s ! self) (env_tz s) of
                       Some alias \<Rightarrow> str_replace ''%Z'' alias
                          (case df of Some d \<Rightarrow> d | None \<Rightarrow> date_format (objects s ! self))
                     | None \<Rightarrow> (case df of Some d \<Rightarrow> d | None \<Rightarrow> date_format (objects s ! self)))\<rparr>,
               h_filters = (case flt of Some f \<Rightarrow> [f] | None \<Rightarrow> [])\<rparr>]"
    and "loggers s' = (loggers s)
           (lm_logger (objects s ! self) :=
              (loggers s (lm_logger (objects s ! self)))
                \<lparr>lg_handlers :=
                   (if length (handler_objs s)
                         \<in> set (lg_handlers (loggers s (lm_logger (objects s ! self))))
                    then lg_handlers (loggers s (lm_logger (objects s ! self)))
                    else lg_handlers (loggers s (lm_logger (objects s ! self)))
                           @ [length (handler_objs s)])\<rparr>)"
proof -
  obtain res s1 where c: "create_handler d r s = (res, s1)" by (cases "create_handler d r s")
  from c have cfg: "config s1 = config s" using create_handler_config [of d r s] by simp
  from c have lgs: "loggers s1 = loggers s" using create_handler_loggers [of d r s] by simp
  from ok valid c obtain h where res: "res = Inr h"
    by (cases res) (simp_all add: add_handler_unfold)
  from c res have h: "h = length (handler_objs s)"
    and hs: "handler_objs s1 = handler_objs s @
       [\<lparr>h_kind = (case d of Stream st \<Rightarrow> StreamHandler
                    | Path p \<Rightarrow> if r then TimedRotatingFileHandler ''midnight'' 7 else FileHandler),
         h_target = d, h_level = NOTSET, h_formatter = None, h_filters = []\<rparr>]"
    using create_handler_Inr [of d r s h s1] by simp_all
  from ok valid c res obtain n where n: "checkLevel lvl s1 = Inr n"
    by (cases "checkLevel lvl s1") (simp_all add: add_handler_unfold)
  from n cfg have n': "checkLevel lvl s = Inr n" using checkLevel_config by metis
  from cfg have tz: "env_tz s1 = env_tz s" by (simp add: config_def)
  from ok valid c res n have s': "s' =
      Logger_addHandler (lm_logger (objects s ! self)) h
                  ((case flt of Some f \<Rightarrow> Handler_addFilter h f | None \<Rightarrow> (\<lambda>x. x))
                     (Handler_setFormatter h
                        \<lparr>fmt_class = (case fc of Some c \<Rightarrow> c | None \<Rightarrow> Formatter),
                         f_fmt = (case fm of Some f \<Rightarrow> f | None \<Rightarrow> entry_format (objects s ! self)),
                         f_datefmt =
                           (case tz_aliases (objects s ! self) (env_tz s1) of
                              Some alias \<Rightarrow> str_replace ''%Z'' alias
                                 (case df of Some d \<Rightarrow> d | None \<Rightarrow> date_format (objects s ! self))
                            | None \<Rightarrow> (case df of Some d \<Rightarrow> d | None \<Rightarrow> date_format (objects s ! self)))\<rparr>
                        (update_handler h (\<lambda>x. x\<lparr>h_level := n\<rparr>) s1)))"
    by (simp add: add_handler_unfold)
  show "config s' = config s"
    using cfg by (cases flt) (simp_all add: s' attach_defs config_def)
  show "\<exists>n. checkLevel lvl s = Inr n \<and>
           handler_objs s' = handler_objs s @
             [\<lparr>h_kind = (case d of Stream st \<Rightarrow> StreamHandler
                          | Path p \<Rightarrow> if r then TimedRotatingFileHandler ''midnight'' 7
                                      else FileHandler),
               h_target = d, h_level = n,
               h_formatter = Some
                 \<lparr>fmt_class = (case fc of Some c \<Rightarrow> c | None \<Rightarrow> Formatter),
                  f_fmt = (case fm of Some f \<Rightarrow> f | None \<Rightarrow> entry_format (objects s ! self)),
                  f_datefmt =
                    (case tz_aliases (objects s ! self) (env_tz s) of
                       Some alias \<Rightarrow> str_replace ''%Z'' alias
                          (case df of Some d \<Rightarrow> d | None \<Rightarrow> date_format (objects s ! self))
                     | None \<Rightarrow> (case df of Some d \<Rightarrow> d | None \<Rightarrow> date_format (objects s ! self)))\<rparr>,
               h_filters = (case flt of Some f \<Rightarrow> [f] | None \<Rightarrow> [])\<rparr>]"
    using n' hs h tz by (cases flt) (simp_all add: s' attach_defs)
  show "loggers s' = (loggers s)
           (lm_logger (objects s ! self) :=
              (loggers s (lm_logger (objects s ! self)))
                \<lparr>lg_handlers :=
                   (if length (handler_objs s)
                         \<in> set (lg_handlers (loggers s (lm_logger (objects s ! self))))
                    then lg_handlers (loggers s (lm_logger (objects s ! self)))
                    else lg_handlers (loggers s (lm_logger (objects s ! self)))
                           @ [length (handler_objs s)])\<rparr>)"
    using lgs h by (cases flt) (simp_all add: s' attach_defs)
qed

lemma new_manager_no_verbose:
  "\<not> has_attribute
       \<lparr>lm_name = name, tz_aliases = tza, lm_logger = lg, entry_format = ef, date_format = df,
        log_funcs = lf, lm_stdout_lvl = lv,
        fn_attrs = map_of (map (\<lambda>fn. (fn, LoggerMethod lg fn)) logger_methods)\<rparr> ''verbose''"
  by (simp add: has_attribute_def logger_methods_def instance_fields_def class_attributes_def
        object_attributes_def)

lemma init_tail:
  "self = length xs \<Longrightarrow>
   bind (ignore_exceptions [InputValidationException]
           (add_level self 19 ''VERBOSE'' (Some ''verbose'')))
        (\<lambda>_ s5. (Inr self, set_instance name self s5))
        (s3\<lparr>objects := xs @
           [\<lparr>lm_name = nm, tz_aliases = tza, lm_logger = lg, entry_format = ef,
             date_format = df, log_funcs = lf, lm_stdout_lvl = lv,
             fn_attrs = map_of (map (\<lambda>fn. (fn, LoggerMethod lg fn)) logger_methods)\<rparr>]\<rparr>)
   = (Inr self,
      set_instance name self
        (if nameToLevel s3 (KStr ''VERBOSE'') = None \<and> nameToLevel s3 (KInt 19) = None
         then s3\<lparr>levelToName := (levelToName s3)(19 \<mapsto> ''VERBOSE''),
                 nameToLevel := (nameToLevel s3)(KStr ''VERBOSE'' \<mapsto> 19),
                 objects := xs @
           [\<lparr>lm_name = nm, tz_aliases = tza, lm_logger = lg, entry_format = ef,
             date_format = df, log_funcs = lf(''verbose'' \<mapsto> LevelLog self 19),
             lm_stdout_lvl = lv,
             fn_attrs = (map_of (map (\<lambda>fn. (fn, LoggerMethod lg fn)) logger_methods))
                          (''verbose'' \<mapsto> LevelLog self 19)\<rparr>]\<rparr>
         else s3\<lparr>objects := xs @
           [\<lparr>lm_name = nm, tz_aliases = tza, lm_logger = lg, entry_format = ef,
             date_format = df, log_funcs = lf(''verbose'' \<mapsto> LevelLog self 19),
             lm_stdout_lvl = lv,
             fn_attrs = (map_of (map (\<lambda>fn. (fn, LoggerMethod lg fn)) logger_methods))
                          (''verbose'' \<mapsto> LevelLog self 19)\<rparr>]\<rparr>))"
  by (simp add: bind_def ignore_exceptions_def add_level_def method_call_def
        new_manager_no_verbose add_log_function_def update_obj_def addLevelName_def Let_def)

lemma set_instance_simps:
  "objects (set_instance n i s) = objects s"
  "levelToName (set_instance n i s) = levelToName s"
  "nameToLevel (set_instance n i s) = nameToLevel s"
  "loggers (set_instance n i s) = loggers s"
  "handler_objs (set_instance n i s) = handler_objs s"
  "handlerList (set_instance n i s) = handlerList s"
  "fsys (set_instance n i s) = fsys s"
  "env_tz (set_instance n i s) = env_tz s"
  "env_user (set_instance n i s) = env_user s"
  "env_now (set_instance n i s) = env_now s"
  "env_stack (set_instance n i s) = env_stack s"
  by (cases n; simp add: set_instance_def)+

lemma registry_set_instance: "registry (set_instance n i s) = (registry s)(n := Some i)"
  by (cases n) (auto simp: set_instance_def registry_def fun_eq_iff split: option.splits)

lemma registry_objects_upd [simp]:
  "registry (s\<lparr>objects := x\<rparr>) = registry s"
  "registry (s\<lparr>loggers := l\<rparr>) = registry s"
  "registry (s\<lparr>levelToName := a\<rparr>) = registry s"
  "registry (s\<lparr>nameToLevel := b\<rparr>) = registry s"
  by (simp_all add: registry_def fun_eq_iff split: option.splits)

lemmas init_defs = LogManager_init_def Let_def init_tail Logger_setLevel_def update_logger_def
  set_instance_simps registry_set_instance

lemma init_fst: "fst (LogManager_init name ef df rh s) = Inr (length (objects s))"
  by (simp add: init_defs)

lemma init_handler_objs:
  "handler_objs (snd (LogManager_init name ef df rh s)) = handler_objs s"
  by (simp add: init_defs)

lemma init_lg_handlers:
  "lg_handlers (loggers (snd (LogManager_init name ef df rh s)) lg) =
     (if rh \<and> lg = getLogger name then [] else lg_handlers (loggers s lg))"
  by (simp add: init_defs)

lemma init_nameToLevel:
  "nameToLevel (snd (LogManager_init name ef df rh s)) =
     (if nameToLevel s (KStr ''VERBOSE'') = None \<and> nameToLevel s (KInt 19) = None
      then (nameToLevel s)(KStr ''VERBOSE'' \<mapsto> 19) else nameToLevel s)"
  by (auto simp: init_defs)

lemma init_levelToName:
  "levelToName (snd (LogManager_init name ef df rh s)) =
     (if nameToLevel s (KStr ''VERBOSE'') = None \<and> nameToLevel s (KInt 19) = None
      then (levelToName s)(19 \<mapsto> ''VERBOSE'') else levelToName s)"
  by (auto simp: init_defs)

lemma init_registry:
  "registry (snd (LogManager_init name ef df rh s)) =
     (registry s)(name := Some (length (objects s)))"
  by (simp add: init_defs)

lemma init_objects:
  "\<exists>m. objects (snd (LogManager_init name ef df rh s)) = objects s @ [m]
       \<and> lm_name m = name \<and> lm_logger m = getLogger name
       \<and> entry_format m = (case ef of Some f \<Rightarrow> f | None \<Rightarrow> ''%(message)s'')
       \<and> date_format m = (case df of Some d \<Rightarrow> d | None \<Rightarrow> ''%Y-%m-%d %H:%M:%S %Z'')
       \<and> tz_aliases m = [''Eastern Standard Time'' \<mapsto> ''EST'', ''Eastern Daylight Time'' \<mapsto> ''EDT'']
       \<and> fn_attrs m = (map_of (map (\<lambda>fn. (fn, LoggerMethod (getLogger name) fn)) logger_methods))
                        (''verbose'' \<mapsto> LevelLog (length (objects s)) 19)
       \<and> log_funcs m = fn_attrs m"
  by (simp add: init_defs)

lemma init_env:
  "env_tz (snd (LogManager_init name ef df rh s)) = env_tz s
   \<and> env_user (snd (LogManager_init name ef df rh s)) = env_user s
   \<and> env_now (snd (LogManager_init name ef df rh s)) = env_now s
   \<and> env_stack (snd (LogManager_init name ef df rh s)) = env_stack s
   \<and> fsys (snd (LogManager_init name ef df rh s)) = fsys s
   \<and> handlerList (snd (LogManager_init name ef df rh s)) = handlerList s"
  by (simp add: init_defs)


lemma registry_config: "config s' = config s \<Longrightarrow> registry s' = registry s"
  by (auto simp: config_def registry_def fun_eq_iff split: option.splits)

lemma invariant_frame:
  assumes "invariant D s" and "config s' = config s" and "loggers s' = loggers s"
    and "length (handler_objs s) \<le> length (handler_objs s')"
  shows "invariant D s'"
proof -
  from assms(2) have r: "registry s' = registry s" by (rule registry_config)
  from assms(2) have o: "objects s' = objects s" "nameToLevel s' = nameToLevel s"
    by (simp_all add: config_def)
  from assms(1,3,4) r o show ?thesis
    by (fastforce simp: invariant_def handlers_allocated_def handlers_distinct_def
          verbose_registered_def registry_valid_def names_are_strings_def)
qed

lemma add_handler_invariant:
  assumes inv: "invariant D s"
  shows "invariant D (snd (add_handler self d lvl fm df flt r fc s))"
proof (cases "add_handler self d lvl fm df flt r fc s")
  case (Pair res s')
  show ?thesis
  proof (cases res)
    case (Inl e)
    with Pair have "config s' = config s \<and> loggers s' = loggers s
         \<and> length (handler_objs s) \<le> length (handler_objs s')"
      using add_handler_Inl by blast
    with inv Pair show ?thesis using invariant_frame by auto
  next
    case (Inr u)
    with Pair have ok: "add_handler self d lvl fm df flt r fc s = (Inr (), s')" by simp
    have valid: "self < length (objects s)"
    proof (rule ccontr)
      assume "\<not> self < length (objects s)"
      with ok show False by (simp add: add_handler_def method_call_def)
    qed
    note eff = add_handler_Inr [OF valid ok]
    from eff(1) have r: "registry s' = registry s" by (rule registry_config)
    from eff(1) have o: "objects s' = objects s" "nameToLevel s' = nameToLevel s"
      by (simp_all add: config_def)
    from eff(2) obtain x where hs: "handler_objs s' = handler_objs s @ [x]" by blast
    have "handlers_allocated s'"
      using inv hs
      by (auto simp: invariant_def handlers_allocated_def eff(3) less_Suc_eq)
    moreover have "handlers_distinct s'"
      using inv by (auto simp: invariant_def handlers_distinct_def eff(3))
    ultimately show ?thesis
      using inv r o Pair
      by (simp add: invariant_def verbose_registered_def registry_valid_def names_are_strings_def)
  qed
qed

lemma snd_bind_inv:
  assumes "P s" and "\<And>s. P s \<Longrightarrow> P (snd (m s))" and "\<And>a s. P s \<Longrightarrow> P (snd (f a s))"
  shows "P (snd (bind m f s))"
proof (cases "m s")
  case (Pair r s1)
  from assms(1,2) have "P (snd (m s))" by blast
  with Pair have p1: "P s1" by simp
  show ?thesis
  proof (cases r)
    case (Inl e) with Pair p1 show ?thesis by (simp add: bind_def)
  next
    case (Inr a)
    with Pair have "bind m f s = f a s1" by (simp add: bind_def)
    with assms(3) [OF p1] show ?thesis by simp
  qed
qed

lemma add_level_invariant:
  assumes inv: "invariant D s"
  shows "invariant D (snd (add_level self n nm fn s))"
  using inv
  by (auto simp: add_level_def method_call_def add_log_function_def update_obj_def addLevelName_def
        Let_def invariant_def handlers_allocated_def handlers_distinct_def
        verbose_registered_def registry_valid_def names_are_strings_def registry_def split: option.splits)

lemma set_timezone_alias_invariant:
  assumes inv: "invariant D s"
  shows "invariant D (snd (set_timezone_alias self a b s))"
  using inv
  by (auto simp: set_timezone_alias_def method_call_def update_obj_def
        invariant_def handlers_allocated_def handlers_distinct_def
        verbose_registered_def registry_valid_def names_are_strings_def registry_def split: option.splits)

lemma init_invariant:
  assumes inv: "invariant D s"
  shows "invariant D (snd (LogManager_init name ef df rh s))"
proof -
  obtain m where o: "objects (snd (LogManager_init name ef df rh s)) = objects s @ [m]"
    using init_objects [of name ef df rh s] by blast
  have "handlers_allocated (snd (LogManager_init name ef df rh s))"
    using inv by (auto simp: invariant_def handlers_allocated_def init_lg_handlers
          init_handler_objs split: if_splits)
  moreover have "handlers_distinct (snd (LogManager_init name ef df rh s))"
    using inv by (auto simp: invariant_def handlers_distinct_def init_lg_handlers)
  moreover have "verbose_registered (snd (LogManager_init name ef df rh s))"
    using inv by (auto simp: invariant_def names_are_strings_def verbose_registered_def
          init_nameToLevel)
  moreover have "names_are_strings (snd (LogManager_init name ef df rh s))"
    using inv by (auto simp: invariant_def names_are_strings_def init_nameToLevel)
  moreover have "registry_valid (snd (LogManager_init name ef df rh s))"
    using inv o by (auto simp: invariant_def registry_valid_def init_registry less_Suc_eq)
  moreover have "\<forall>n. D n \<longrightarrow> registry (snd (LogManager_init name ef df rh s)) n \<noteq> None"
    using inv by (auto simp: invariant_def init_registry)
  ultimately show ?thesis by (simp add: invariant_def)
qed

lemma init_default_stream_logger_invariant:
  "invariant D s \<Longrightarrow> invariant D (snd (init_default_stream_logger self debug verbose s))"
  unfolding init_default_stream_logger_def Let_def
  by (rule snd_bind_inv) (simp_all add: add_handler_invariant)

lemma init_default_logger_invariant:
  "invariant D s \<Longrightarrow> invariant D (snd (init_default_logger self debug verbose log_path s))"
  unfolding init_default_logger_def
  apply (rule snd_bind_inv, assumption)
   apply (simp add: init_default_stream_logger_invariant)
  apply (simp only: Let_def)
  apply (rule snd_bind_inv, assumption)
   apply (simp add: add_handler_invariant)
  apply (simp add: return_val_def)
  done

lemma registry_env_stack [simp]: "registry (s\<lparr>env_stack := x\<rparr>) = registry s"
  by (simp add: registry_def fun_eq_iff split: option.splits)

lemma invariant_env_stack: "invariant D (s\<lparr>env_stack := x\<rparr>) = invariant D s"
  by (simp add: invariant_def handlers_allocated_def handlers_distinct_def
        verbose_registered_def registry_valid_def names_are_strings_def)

lemma in_frame_invariant:
  assumes "\<And>s. invariant D s \<Longrightarrow> invariant D (snd (body s))"
  shows "invariant D s \<Longrightarrow> invariant D (snd (in_frame body s))"
proof -
  assume i: "invariant D s"
  then have "invariant D (s\<lparr>env_stack := Some this_file # env_stack s\<rparr>)"
    by (simp add: invariant_env_stack)
  from assms [OF this] show ?thesis
    by (cases "body (s\<lparr>env_stack := Some this_file # env_stack s\<rparr>)")
       (simp add: in_frame_def invariant_env_stack)
qed

lemma create_default_stream_logger_invariant:
  "invariant D s \<Longrightarrow> invariant D (snd (create_default_stream_logger debug verbose args s))"
  unfolding create_default_stream_logger_def
  apply (rule snd_bind_inv, assumption)
   apply (simp add: init_invariant)
  apply (rule snd_bind_inv, assumption)
   apply (simp add: init_default_stream_logger_invariant)
  apply (simp add: return_val_def)
  done

lemma create_default_logger_invariant:
  "invariant D s \<Longrightarrow> invariant D (snd (create_default_logger debug verbose log_path args s))"
  unfolding create_default_logger_def
  apply (rule snd_bind_inv, assumption)
   apply (simp add: init_invariant)
  apply (rule snd_bind_inv, assumption)
   apply (rule in_frame_invariant)
    apply (simp add: init_default_logger_invariant)
   apply assumption
  apply (simp add: return_val_def)
  done

lemma get_instance_invariant:
  "invariant D s \<Longrightarrow> invariant D (snd (get_instance name debug verbose third ef df rh s))"
  unfolding get_instance_def
  apply (cases name; simp)
   apply (rule impI)
   apply (rule snd_bind_inv, assumption)
    apply (simp add: create_default_stream_logger_invariant)
   apply simp
  apply (intro conjI impI)
  apply (rule snd_bind_inv, assumption)
   apply (simp add: create_default_stream_logger_invariant)
  apply (simp split: option.splits)
  done

lemma exec_op_invariant: "invariant D s \<Longrightarrow> invariant D (exec_op op s)"
  by (cases op)
     (simp_all add: init_invariant get_instance_invariant create_default_stream_logger_invariant
        create_default_logger_invariant set_timezone_alias_invariant add_level_invariant
        add_handler_invariant init_default_stream_logger_invariant init_default_logger_invariant)

lemma run_invariant: "invariant D s \<Longrightarrow> invariant D (run ops s)"
  unfolding run_def by (induction ops arbitrary: s) (simp_all add: exec_op_invariant)

lemma initial_invariant: "invariant (\<lambda>n. False) (initial_world f tz u t st)"
  by (simp add: invariant_def initial_world_def handlers_allocated_def handlers_distinct_def
        verbose_registered_def registry_valid_def names_are_strings_def registry_def split: option.splits)


lemma add_handler_returns:
  assumes valid: "self < length (objects s)"
  shows "(fst (add_handler self d lvl fm df flt r fc s) = Inr ()) =
           ((\<exists>n. checkLevel lvl s = Inr n) \<and>
            (case d of Stream st \<Rightarrow> True
             | Path p \<Rightarrow> (if fs_exists (fsys s) (dirname p) then fs_isdir (fsys s) (dirname p)
                          else fs_can_makedirs (fsys s) (dirname p)) \<and> fs_can_open (fsys s) p))"
proof -
  obtain res s1 where c: "create_handler d r s = (res, s1)" by (cases "create_handler d r s")
  from c have cfg: "config s1 = config s" using create_handler_config [of d r s] by simp
  have lv: "checkLevel lvl s1 = checkLevel lvl s" using cfg by (rule checkLevel_config)
  have ret: "(\<exists>h. res = Inr h) =
            (case d of Stream st \<Rightarrow> True
             | Path p \<Rightarrow> (if fs_exists (fsys s) (dirname p) then fs_isdir (fsys s) (dirname p)
                          else fs_can_makedirs (fsys s) (dirname p)) \<and> fs_can_open (fsys s) p)"
    using create_handler_returns [of d r s] c by auto
  show ?thesis
  proof (cases res)
    case (Inl e)
    with c valid ret show ?thesis by (auto simp: add_handler_unfold)
  next
    case (Inr h)
    with c valid ret lv show ?thesis
      by (cases "checkLevel lvl s") (auto simp: add_handler_unfold)
  qed
qed

lemma add_handler_Inl_lg:
  "add_handler self d lvl fm df flt r fc s = (Inl e, s') \<Longrightarrow> loggers s' = loggers s"
  using add_handler_Inl by blast


lemma getLevelName_registered:
  "nameToLevel s (KStr nm) = Some n \<Longrightarrow> checkLevel (getLevelName nm s) s = Inr n"
  by (simp add: getLevelName_def checkLevel_def)

lemma init_default_stream_logger_effect:
  assumes valid: "self < length (objects s)"
      and alloc: "\<forall>h \<in> set (lg_handlers (loggers s (lm_logger (objects s ! self)))).
                    h < length (handler_objs s)"
      and vr: "verbose \<longrightarrow> nameToLevel s (KStr ''VERBOSE'') \<noteq> None"
  shows "\<exists>s' h1 h2.
           init_default_stream_logger self debug verbose s = (Inr (), s')
         \<and> config s' = config s
         \<and> handler_objs s' = handler_objs s @ [h1, h2]
         \<and> h_kind h1 = StreamHandler \<and> h_target h1 = Stream Stdout
         \<and> h_filters h1 = [CustomLogFilter (\<lambda>lvl. lvl < WARNING)]
         \<and> h_kind h2 = StreamHandler \<and> h_target h2 = Stream Stderr
         \<and> h_filters h2 = [CustomLogFilter (\<lambda>lvl. lvl \<ge> WARNING)]
         \<and> h_level h2 = INFO
         \<and> loggers s' = (loggers s)
              (lm_logger (objects s ! self) :=
                 (loggers s (lm_logger (objects s ! self)))
                   \<lparr>lg_handlers := lg_handlers (loggers s (lm_logger (objects s ! self)))
                       @ [length (handler_objs s), Suc (length (handler_objs s))]\<rparr>)"
proof -
  define lv where "lv = (if verbose then getLevelName ''VERBOSE'' s
                         else if debug then LevelNo DEBUG else LevelNo INFO)"
  define lg where "lg = lm_logger (objects s ! self)"
  have "\<exists>n. checkLevel lv s = Inr n"
  proof (cases verbose)
    case True
    with vr obtain y where "nameToLevel s (KStr ''VERBOSE'') = Some y" by auto
    from getLevelName_registered [OF this] True show ?thesis by (auto simp: lv_def)
  next
    case False
    then show ?thesis by (simp add: lv_def checkLevel_def)
  qed
  then have "fst (add_handler self (Stream Stdout) lv None None
                (Some (create_filter (\<lambda>lvl. lvl < WARNING))) True None s) = Inr ()"
    by (simp add: add_handler_returns [OF valid])
  then obtain s1 where a1: "add_handler self (Stream Stdout) lv None None
                (Some (create_filter (\<lambda>lvl. lvl < WARNING))) True None s = (Inr (), s1)"
    by (cases "add_handler self (Stream Stdout) lv None None
                (Some (create_filter (\<lambda>lvl. lvl < WARNING))) True None s") auto
  note e1 = add_handler_Inr [OF valid a1]
  from e1(1) have o1: "objects s1 = objects s" by (simp add: config_def)
  from o1 valid have valid1: "self < length (objects s1)" by simp
  have "fst (add_handler self (Stream Stderr) (LevelNo INFO) (Some ''%(levelname)s %(message)s'')
                None (Some (create_filter (\<lambda>lvl. lvl \<ge> WARNING))) True
                (Some (create_formatter rec_red colored_red None)) s1) = Inr ()"
    by (simp add: add_handler_returns [OF valid1] checkLevel_def)
  then obtain s2 where a2: "add_handler self (Stream Stderr) (LevelNo INFO)
                (Some ''%(levelname)s %(message)s'')
                None (Some (create_filter (\<lambda>lvl. lvl \<ge> WARNING))) True
                (Some (create_formatter rec_red colored_red None)) s1 = (Inr (), s2)"
    by (cases "add_handler self (Stream Stderr) (LevelNo INFO)
                (Some ''%(levelname)s %(message)s'')
                None (Some (create_filter (\<lambda>lvl. lvl \<ge> WARNING))) True
                (Some (create_formatter rec_red colored_red None)) s1") auto
  note e2 = add_handler_Inr [OF valid1 a2]
  from e1(2) obtain h1 where h1: "handler_objs s1 = handler_objs s @ [h1]"
    "h_kind h1 = StreamHandler" "h_target h1 = Stream Stdout"
    "h_filters h1 = [CustomLogFilter (\<lambda>lvl. lvl < WARNING)]"
    by (auto simp: create_filter_def)
  from e2(2) obtain h2 where h2: "handler_objs s2 = handler_objs s1 @ [h2]"
    "h_kind h2 = StreamHandler" "h_target h2 = Stream Stderr"
    "h_filters h2 = [CustomLogFilter (\<lambda>lvl. lvl \<ge> WARNING)]" "h_level h2 = INFO"
    by (auto simp: create_filter_def checkLevel_def)
  have run: "init_default_stream_logger self debug verbose s = (Inr (), s2)"
    using a1 a2 by (simp add: init_default_stream_logger_def Let_def bind_def lv_def)
  have cfg: "config s2 = config s" using e1(1) e2(1) by simp
  have lgs: "loggers s2 = (loggers s)
              (lm_logger (objects s ! self) :=
                 (loggers s (lm_logger (objects s ! self)))
                   \<lparr>lg_handlers := lg_handlers (loggers s (lm_logger (objects s ! self)))
                       @ [length (handler_objs s), Suc (length (handler_objs s))]\<rparr>)"
    using alloc by (auto simp: e2(3) e1(3) o1 h1(1))
  from run cfg lgs h1 h2 show ?thesis by auto
qed












lemma handler_targets_env_stack [simp]:
  "handler_targets (s\<lparr>env_stack := x\<rparr>) lg = handler_targets s lg"
  by (simp add: handler_targets_def)






lemma fst_in_frame:
  "fst (in_frame body s) = fst (body (s\<lparr>env_stack := Some this_file # env_stack s\<rparr>))"
  by (simp add: in_frame_def split: prod.splits)








subsection \<open>Auxiliary facts\<close>

lemma issubclass_refl: "issubclass c c"
  by (cases c) simp

lemma isinstance_Nil: "\<not> isinstance e []"
  by (simp add: isinstance_def)

lemmas class_defs = BaseException_def Exception_def KeyboardInterrupt_def TypeError_def
  ValueError_def LookupError_def KeyError_def AttributeError_def OSError_def
  InputValidationException_def FatalRuntimeException_def

lemma add_level_fails_unchanged:
  "add_level self n nm fn s = (Inl e, s') \<Longrightarrow> s' = s"
  by (auto simp: add_level_def method_call_def add_log_function_def Let_def split: if_splits)

lemma add_level_fails_class:
  "self < length (objects s) \<Longrightarrow> add_level self n nm fn s = (Inl e, s')
     \<Longrightarrow> exn_class e = InputValidationException"
  by (auto simp: add_level_def method_call_def add_log_function_def Let_def split: if_splits)

subsection \<open>The concrete states\<close>

lemma world0_tables:
  "nameToLevel world0 (KStr ''VERBOSE'') = None"
  "nameToLevel world0 (KStr ''NOTICE'') = None"
  "nameToLevel world0 (KInt i) = None"
  "levelToName world0 20 = Some ''INFO''"
  "handler_objs world0 = [lastResort]"
  "lg_handlers (loggers world0 lg) = []"
  "objects world0 = []"
  "fsys world0 = fs0"
  "env_tz world0 = ''UTC''"
  by (simp_all add: world0_def initial_world_def)

lemma world1_objects:
  "length (objects world1) = 1"
  "lm_logger (objects world1 ! 0) = []"
  "entry_format (objects world1 ! 0) = ''%(message)s''"
  "date_format (objects world1 ! 0) = ''%Y-%m-%d %H:%M:%S %Z''"
  "tz_aliases (objects world1 ! 0) =
     [''Eastern Standard Time'' \<mapsto> ''EST'', ''Eastern Daylight Time'' \<mapsto> ''EDT'']"
  "fn_attrs (objects world1 ! 0) =
     (map_of (map (\<lambda>fn. (fn, LoggerMethod [] fn)) logger_methods))(''verbose'' \<mapsto> LevelLog 0 19)"
  using init_objects [of None None None True world0]
  by (auto simp: world1_def world0_tables getLogger_def)

lemma world1_tables:
  "nameToLevel world1 = (nameToLevel world0)(KStr ''VERBOSE'' \<mapsto> 19)"
  "levelToName world1 = (levelToName world0)(19 \<mapsto> ''VERBOSE'')"
  "handler_objs world1 = [lastResort]"
  "lg_handlers (loggers world1 lg) = []"
  "fsys world1 = fs0"
  "env_tz world1 = ''UTC''"
  by (simp_all add: world1_def init_nameToLevel init_levelToName init_handler_objs
        init_lg_handlers init_env world0_tables)

lemma run_construct_world0: "run [Construct None None None True] world0 = world1"
  by (simp add: run_def world1_def)

subsection \<open>The suppression helpers\<close>

text \<open>
  C9, as the code has it. \<open>ignore_exceptions_except\<close> handles instances of
  \<open>Exception\<close> only: of those it swallows the ones that are no instance of a listed
  class and raises the others again, the same exception value; an exception that is no
  instance of \<open>Exception\<close> leaves the \<open>with\<close> statement whatever is listed. With no
  class listed it swallows every instance of \<open>Exception\<close>, while \<open>ignore_exceptions()\<close>
  swallows nothing. A body that raises nothing ends normally.
\<close>

theorem ignore_exceptions_except_spec:
  "(body s = (Inl e, s') \<longrightarrow>
      ignore_exceptions_except cs body s =
        (if isinstance e [Exception] \<and> \<not> isinstance e cs then (Inr (), s') else (Inl e, s'))
      \<and> ignore_exceptions_except [] body s =
        (if isinstance e [Exception] then (Inr (), s') else (Inl e, s'))
      \<and> ignore_exceptions [] body s = (Inl e, s'))
   \<and> (body s = (Inr a, s') \<longrightarrow> ignore_exceptions_except cs body s = (Inr (), s'))"
  by (simp add: ignore_exceptions_except_def ignore_exceptions_def isinstance_Nil)

theorem ignore_exceptions_except_spec_witness:
  "ignore_exceptions_except [LookupError]
     (raise_exn (Exn ValueError ''bad'') :: (nat, unit) prog) 0 = (Inr (), 0)
   \<and> ignore_exceptions_except [LookupError]
       (raise_exn (Exn KeyError ''k'') :: (nat, unit) prog) 0 = (Inl (Exn KeyError ''k''), 0)"
  using ignore_exceptions_except_spec [of "raise_exn (Exn ValueError ''bad'') :: (nat, unit) prog"
           0 "Exn ValueError ''bad''" 0 "[LookupError]" "()"]
        ignore_exceptions_except_spec [of "raise_exn (Exn KeyError ''k'') :: (nat, unit) prog"
           0 "Exn KeyError ''k''" 0 "[LookupError]" "()"]
  by (simp add: raise_exn_def isinstance_def ValueError_def KeyError_def LookupError_def
        Exception_def BaseException_def)

text \<open>
  C9 as stated fails: \<open>KeyboardInterrupt\<close> is an instance of no listed class (none is
  listed), and \<open>ignore_exceptions_except()\<close> does not swallow it.
\<close>

theorem ignore_exceptions_except_keyboard_interrupt:
  "\<not> isinstance (Exn KeyboardInterrupt ''ctrl-c'') []
   \<and> ignore_exceptions_except []
       (raise_exn (Exn KeyboardInterrupt ''ctrl-c'') :: (nat, unit) prog) 0
       = (Inl (Exn KeyboardInterrupt ''ctrl-c''), 0)"
  by (simp add: ignore_exceptions_except_def raise_exn_def isinstance_def KeyboardInterrupt_def
        Exception_def BaseException_def)


subsection \<open>ignore_exceptions and the constructor\<close>

text \<open>
  C6. Under \<open>ignore_exceptions(*cs)\<close> an exception that is an instance of a listed
  class is swallowed and the \<open>with\<close> statement ends normally; any other exception
  leaves it as the same value; a body that raises nothing ends normally. In particular
  the call of \<open>add_level\<close> that \<open>__init__\<close> wraps never lets an exception out, and
  the constructor returns the new object for every argument and every state.
\<close>

theorem ignore_exceptions_spec:
  "(body s = (Inl e, s') \<longrightarrow>
      ignore_exceptions cs body s = (if isinstance e cs then (Inr (), s') else (Inl e, s')))
   \<and> (body s = (Inr a, s') \<longrightarrow> ignore_exceptions cs body s = (Inr (), s'))
   \<and> (self < length (objects w) \<longrightarrow>
        fst (ignore_exceptions [InputValidationException]
               (add_level self level_number level_name fn_name) w) = Inr ())
   \<and> (\<exists>w'. LogManager_init name entry_fmt date_fmt replace_handlers w
              = (Inr (length (objects w)), w'))"
proof -
  have swallowed: "fst (ignore_exceptions [InputValidationException]
           (add_level self level_number level_name fn_name) w) = Inr ()"
    if valid: "self < length (objects w)"
  proof (cases "add_level self level_number level_name fn_name w")
    case (Pair r w')
    show ?thesis
    proof (cases r)
      case (Inl e)
      with Pair valid have "exn_class e = InputValidationException"
        using add_level_fails_class by blast
      with Pair Inl show ?thesis
        by (simp add: ignore_exceptions_def isinstance_def issubclass_refl)
    next
      case (Inr u)
      with Pair show ?thesis by (simp add: ignore_exceptions_def)
    qed
  qed
  show ?thesis
    using swallowed init_fst [of name entry_fmt date_fmt replace_handlers w]
    by (cases "LogManager_init name entry_fmt date_fmt replace_handlers w")
       (simp add: ignore_exceptions_def)
qed

theorem ignore_exceptions_spec_witness:
  "ignore_exceptions [InputValidationException]
     (raise_exn (Exn InputValidationException ''x'') :: (nat, unit) prog) 0 = (Inr (), 0)
   \<and> ignore_exceptions [InputValidationException]
     (raise_exn (Exn ValueError ''x'') :: (nat, unit) prog) 0 = (Inl (Exn ValueError ''x''), 0)
   \<and> ignore_exceptions [InputValidationException] (return_val (5::nat)) (0::nat) = (Inr (), 0)
   \<and> fst (ignore_exceptions [InputValidationException]
            (add_level 0 19 ''VERBOSE'' (Some ''verbose'')) world1) = Inr ()
   \<and> (\<exists>w'. LogManager_init None None None True world0 = (Inr (length (objects world0)), w'))"
  using ignore_exceptions_spec [where body = "raise_exn (Exn InputValidationException ''x'') :: (nat, unit) prog"
           and s = 0 and e = "Exn InputValidationException ''x''" and s' = 0
           and cs = "[InputValidationException]" and self = 0 and w = world1
           and level_number = 19 and level_name = "''VERBOSE''" and fn_name = "Some ''verbose''"]
        ignore_exceptions_spec [where body = "raise_exn (Exn ValueError ''x'') :: (nat, unit) prog"
           and s = 0 and e = "Exn ValueError ''x''" and s' = 0
           and cs = "[InputValidationException]" and self = 0 and w = world1]
        ignore_exceptions_spec [where body = "return_val (5::nat) :: (nat, nat) prog"
           and s = 0 and a = 5 and s' = 0 and cs = "[InputValidationException]"
           and w = world0 and name = None and entry_fmt = None and date_fmt = None
           and replace_handlers = True]
  by (simp add: raise_exn_def return_val_def isinstance_def class_defs world1_objects)


subsection \<open>add_level\<close>

text \<open>
  C10. When the function name is already an attribute of the instance, \<open>add_level\<close>
  raises \<open>InputValidationException\<close> and returns the state it was given; and whenever
  \<open>add_level\<close> raises, the state, with the objects (their \<open>log_funcs\<close> and
  attributes) and both level tables of \<open>logging\<close>, is the one before the call.
\<close>

theorem add_level_atomic_on_failure:
  "(self < length (objects s)
      \<and> has_attribute (objects s ! self) (case fn_name of Some f \<Rightarrow> f | None \<Rightarrow> level_name)
     \<longrightarrow> (\<exists>msg. add_level self level_number level_name fn_name s
                 = (Inl (Exn InputValidationException msg), s)))
   \<and> (add_level self level_number level_name fn_name s = (Inl e, s')
     \<longrightarrow> s' = s \<and> objects s' = objects s \<and> levelToName s' = levelToName s
         \<and> nameToLevel s' = nameToLevel s)"
  using add_level_fails_unchanged [of self level_number level_name fn_name s e s']
  by (auto simp: add_level_def method_call_def Let_def)

theorem add_level_atomic_on_failure_witness:
  "0 < length (objects world1) \<and> has_attribute (objects world1 ! 0) ''verbose''
   \<and> (\<exists>msg. add_level 0 19 ''VERBOSE'' (Some ''verbose'') world1
                 = (Inl (Exn InputValidationException msg), world1))
   \<and> snd (add_level 0 19 ''VERBOSE'' (Some ''verbose'') world1) = world1"
proof -
  have a: "0 < length (objects world1)" by (simp add: world1_objects)
  have b: "has_attribute (objects world1 ! 0) ''verbose''"
    by (simp add: has_attribute_def world1_objects)
  from a b add_level_atomic_on_failure [where self = 0 and s = world1
      and fn_name = "Some ''verbose''" and level_name = "''VERBOSE''" and level_number = 19]
  obtain msg where m: "add_level 0 19 ''VERBOSE'' (Some ''verbose'') world1
                 = (Inl (Exn InputValidationException msg), world1)"
    by auto
  with a b show ?thesis by simp
qed


text \<open>
  C1 at \<open>add_level(20, "NOTICE", "notice")\<close> on a new \<open>LogManager\<close>: the instance has
  no attribute \<open>notice\<close>, 20 is the registered number of \<open>INFO\<close> and \<open>NOTICE\<close> is no
  registered name; the call returns normally, having registered \<open>NOTICE\<close> under 20 and
  replaced the name of level 20. The test \<open>level_number not in logging._nameToLevel\<close>
  looks the number up among the names.
\<close>

theorem add_level_taken_number:
  "\<not> has_attribute (objects world1 ! 0) ''notice''
   \<and> levelToName world1 20 = Some ''INFO''
   \<and> nameToLevel world1 (KStr ''NOTICE'') = None
   \<and> fst (add_level 0 20 ''NOTICE'' (Some ''notice'') world1) = Inr ()
   \<and> nameToLevel (snd (add_level 0 20 ''NOTICE'' (Some ''notice'') world1)) (KStr ''NOTICE'')
       = Some 20
   \<and> levelToName (snd (add_level 0 20 ''NOTICE'' (Some ''notice'') world1)) 20 = Some ''NOTICE''"
  by (simp add: add_level_def method_call_def add_log_function_def update_obj_def addLevelName_def
        Let_def has_attribute_def world1_objects world1_tables world0_tables logger_methods_def
        instance_fields_def class_attributes_def object_attributes_def)

theorem add_level_taken_number_witness:
  "levelToName world1 20 = Some ''INFO''
   \<and> fst (add_level 0 20 ''NOTICE'' (Some ''notice'') world1) = Inr ()
   \<and> nameToLevel (snd (add_level 0 20 ''NOTICE'' (Some ''notice'') world1)) (KStr ''NOTICE'')
       = Some 20"
  using add_level_taken_number by simp

subsection \<open>add_handler\<close>

text \<open>
  C4, as the code has it, in every state that a run of operations reaches from a fresh
  process. \<open>add_handler\<close> returns normally exactly when the level is a number or a
  registered level name and, for a path, the directory of the path is a directory or
  can be made and the file can be opened; otherwise it raises and no logger changes.
  When it returns, exactly one new handler is at the end of the handlers of the
  managed logger, no other logger changes, the handlers that existed are untouched,
  and the new handler is a stream handler for a destination with \<open>write\<close>, a timed
  rotating file handler when \<open>rotate\<close> is true and a plain file handler otherwise;
  its threshold is the given level; its formatter has the given or default entry
  format and the given or default date format, in which \<open>%Z\<close> is replaced by the alias
  of the local time zone when there is one; its only filter is the given one.
\<close>

theorem add_handler_spec:
  assumes valid: "self < length (objects (run ops (initial_world f tz u t st)))"
  shows
   "(let s = run ops (initial_world f tz u t st);
         res = add_handler self destination lvl fmt date_fmt flt rotate_arg formatter_cls s;
         s' = snd res; m = objects s ! self; new = length (handler_objs s)
     in (fst res = Inr ()) =
          ((\<exists>n. checkLevel lvl s = Inr n) \<and>
           (case destination of Stream st \<Rightarrow> True
            | Path p \<Rightarrow> (if fs_exists (fsys s) (dirname p) then fs_isdir (fsys s) (dirname p)
                         else fs_can_makedirs (fsys s) (dirname p))
                        \<and> fs_can_open (fsys s) p))
        \<and> (fst res \<noteq> Inr () \<longrightarrow> loggers s' = loggers s)
        \<and> (fst res = Inr () \<longrightarrow>
             lg_handlers (loggers s' (lm_logger m)) = lg_handlers (loggers s (lm_logger m)) @ [new]
           \<and> (\<forall>lg. lg \<noteq> lm_logger m \<longrightarrow> loggers s' lg = loggers s lg)
           \<and> length (handler_objs s') = Suc new
           \<and> take new (handler_objs s') = handler_objs s
           \<and> h_kind (handler_objs s' ! new) =
                (case destination of Stream st \<Rightarrow> StreamHandler
                 | Path p \<Rightarrow> if rotate_arg then TimedRotatingFileHandler ''midnight'' 7
                             else FileHandler)
           \<and> h_target (handler_objs s' ! new) = destination
           \<and> checkLevel lvl s = Inr (h_level (handler_objs s' ! new))
           \<and> h_formatter (handler_objs s' ! new) = Some
                \<lparr>fmt_class = (case formatter_cls of Some c \<Rightarrow> c | None \<Rightarrow> Formatter),
                 f_fmt = (case fmt of Some x \<Rightarrow> x | None \<Rightarrow> entry_format m),
                 f_datefmt =
                   (case tz_aliases m (env_tz s) of
                      Some alias \<Rightarrow> str_replace ''%Z'' alias
                         (case date_fmt of Some d \<Rightarrow> d | None \<Rightarrow> date_format m)
                    | None \<Rightarrow> (case date_fmt of Some d \<Rightarrow> d | None \<Rightarrow> date_format m))\<rparr>
           \<and> h_filters (handler_objs s' ! new) = (case flt of Some x \<Rightarrow> [x] | None \<Rightarrow> [])))"
proof -
  define s where "s = run ops (initial_world f tz u t st)"
  define res where "res = add_handler self destination lvl fmt date_fmt flt rotate_arg formatter_cls s"
  define s' where "s' = snd res"
  from valid have v: "self < length (objects s)" by (simp add: s_def)
  have inv: "invariant (\<lambda>n. False) s"
    unfolding s_def by (rule run_invariant) (rule initial_invariant)
  then have alloc: "length (handler_objs s) \<notin> set (lg_handlers (loggers s (lm_logger (objects s ! self))))"
    by (auto simp: invariant_def handlers_allocated_def)
  have ret: "(fst res = Inr ()) =
          ((\<exists>n. checkLevel lvl s = Inr n) \<and>
           (case destination of Stream st \<Rightarrow> True
            | Path p \<Rightarrow> (if fs_exists (fsys s) (dirname p) then fs_isdir (fsys s) (dirname p)
                         else fs_can_makedirs (fsys s) (dirname p))
                        \<and> fs_can_open (fsys s) p))"
    unfolding res_def by (rule add_handler_returns [OF v])
  have fail: "loggers s' = loggers s" if "fst res \<noteq> Inr ()"
  proof -
    from that obtain e where "res = (Inl e, s')"
      by (cases res; cases "fst res") (auto simp: s'_def)
    then show ?thesis unfolding res_def by (rule add_handler_Inl_lg)
  qed
  have ok: "lg_handlers (loggers s' (lm_logger (objects s ! self)))
               = lg_handlers (loggers s (lm_logger (objects s ! self))) @ [length (handler_objs s)]
           \<and> (\<forall>lg. lg \<noteq> lm_logger (objects s ! self) \<longrightarrow> loggers s' lg = loggers s lg)
           \<and> length (handler_objs s') = Suc (length (handler_objs s))
           \<and> take (length (handler_objs s)) (handler_objs s') = handler_objs s
           \<and> h_kind (handler_objs s' ! length (handler_objs s)) =
                (case destination of Stream st \<Rightarrow> StreamHandler
                 | Path p \<Rightarrow> if rotate_arg then TimedRotatingFileHandler ''midnight'' 7
                             else FileHandler)
           \<and> h_target (handler_objs s' ! length (handler_objs s)) = destination
           \<and> checkLevel lvl s = Inr (h_level (handler_objs s' ! length (handler_objs s)))
           \<and> h_formatter (handler_objs s' ! length (handler_objs s)) = Some
                \<lparr>fmt_class = (case formatter_cls of Some c \<Rightarrow> c | None \<Rightarrow> Formatter),
                 f_fmt = (case fmt of Some x \<Rightarrow> x | None \<Rightarrow> entry_format (objects s ! self)),
                 f_datefmt =
                   (case tz_aliases (objects s ! self) (env_tz s) of
                      Some alias \<Rightarrow> str_replace ''%Z'' alias
                         (case date_fmt of Some d \<Rightarrow> d | None \<Rightarrow> date_format (objects s ! self))
                    | None \<Rightarrow> (case date_fmt of Some d \<Rightarrow> d | None \<Rightarrow> date_format (objects s ! self)))\<rparr>
           \<and> h_filters (handler_objs s' ! length (handler_objs s))
                = (case flt of Some x \<Rightarrow> [x] | None \<Rightarrow> [])"
    if "fst res = Inr ()"
  proof -
    from that have r: "add_handler self destination lvl fmt date_fmt flt rotate_arg formatter_cls s
                        = (Inr (), s')"
      by (cases res) (simp add: s'_def res_def)
    note eff = add_handler_Inr [OF v r]
    from eff(2) obtain n where n: "checkLevel lvl s = Inr n"
      and hs: "handler_objs s' = handler_objs s @
             [\<lparr>h_kind = (case destination of Stream st \<Rightarrow> StreamHandler
                          | Path p \<Rightarrow> if rotate_arg then TimedRotatingFileHandler ''midnight'' 7
                                      else FileHandler),
               h_target = destination, h_level = n,
               h_formatter = Some
                 \<lparr>fmt_class = (case formatter_cls of Some c \<Rightarrow> c | None \<Rightarrow> Formatter),
                  f_fmt = (case fmt of Some f \<Rightarrow> f | None \<Rightarrow> entry_format (objects s ! self)),
                  f_datefmt =
                    (case tz_aliases (objects s ! self) (env_tz s) of
                       Some alias \<Rightarrow> str_replace ''%Z'' alias
                          (case date_fmt of Some d \<Rightarrow> d | None \<Rightarrow> date_format (objects s ! self))
                     | None \<Rightarrow> (case date_fmt of Some d \<Rightarrow> d | None \<Rightarrow> date_format (objects s ! self)))\<rparr>,
               h_filters = (case flt of Some f \<Rightarrow> [f] | None \<Rightarrow> [])\<rparr>]"
      by blast
    from alloc show ?thesis
      by (simp add: eff(3) hs n)
  qed
  show ?thesis
    using ret fail ok
    unfolding Let_def s_def [symmetric] res_def [symmetric] s'_def [symmetric]
    by blast
qed


theorem add_handler_spec_witness:
  "0 < length (objects world1)
   \<and> fst (add_handler 0 (Stream Stdout) (LevelNo 20) None None None True None world1) = Inr ()
   \<and> lg_handlers (loggers (snd (add_handler 0 (Stream Stdout) (LevelNo 20) None None None True
        None world1)) []) = [1]
   \<and> h_kind (handler_objs (snd (add_handler 0 (Stream Stdout) (LevelNo 20) None None None True
        None world1)) ! 1) = StreamHandler
   \<and> h_level (handler_objs (snd (add_handler 0 (Stream Stdout) (LevelNo 20) None None None True
        None world1)) ! 1) = 20
   \<and> h_formatter (handler_objs (snd (add_handler 0 (Stream Stdout) (LevelNo 20) None None None
        True None world1)) ! 1)
       = Some \<lparr>fmt_class = Formatter, f_fmt = ''%(message)s'',
                f_datefmt = ''%Y-%m-%d %H:%M:%S %Z''\<rparr>"
proof -
  have v: "0 < length (objects (run [Construct None None None True]
              (initial_world fs0 ''UTC'' ''root'' 1700000000 [Some ''log_handling'', Some ''app''])))"
    using run_construct_world0 by (simp add: world0_def world1_objects)
  have w: "run [Construct None None None True]
              (initial_world fs0 ''UTC'' ''root'' 1700000000 [Some ''log_handling'', Some ''app''])
           = world1"
    using run_construct_world0 by (simp add: world0_def)
  show ?thesis
    using add_handler_spec [OF v, where destination = "Stream Stdout" and lvl = "LevelNo 20"
        and fmt = None and date_fmt = None and flt = None and rotate_arg = True
        and formatter_cls = None]
    by (simp add: w Let_def checkLevel_def world1_objects world1_tables)
qed

text \<open>
  C4 as stated fails: where the directory part of the path exists and is no directory
  (\<open>/etc/hosts\<close> is a file), \<open>_prep_log_dir\<close> raises \<open>InputValidationException\<close> and the
  call appends no handler.
\<close>

theorem add_handler_not_a_directory:
  "fst (add_handler 0 (Path ''/etc/hosts/app.log'') (LevelNo 20) None None None True None world1)
     = Inl (Exn InputValidationException ''Invalid log file dir - not a directory: /etc/hosts'')
   \<and> lg_handlers (loggers (snd (add_handler 0 (Path ''/etc/hosts/app.log'') (LevelNo 20) None None
        None True None world1)) []) = []
   \<and> handler_objs (snd (add_handler 0 (Path ''/etc/hosts/app.log'') (LevelNo 20) None None
        None True None world1)) = handler_objs world1"
  by (simp add: add_handler_unfold world1_objects world1_tables create_handler_def bind_def
        prep_log_dir_def dirname_def fs0_def Let_def)


lemma reachable_invariant: "invariant (\<lambda>n. False) (run ops (initial_world f tz u t st))"
  by (rule run_invariant) (rule initial_invariant)

lemma invariant_weaken:
  "invariant D' s \<Longrightarrow> (\<forall>n. D n \<longrightarrow> registry s n \<noteq> None) \<Longrightarrow> invariant D s"
  by (simp add: invariant_def)

lemma run_append: "run (xs @ ys) s = run ys (run xs s)"
  by (simp add: run_def)





subsection \<open>The handlers of a logger\<close>




subsection \<open>The filters of the default stream handlers\<close>

text \<open>
  C8. In every reachable state, \<open>init_default_stream_logger\<close> on a \<open>LogManager\<close>
  returns normally and appends two handlers to the managed logger, the first for
  stdout and the second for stderr; a record passes the filters of the stderr handler
  exactly when its level is at least \<open>WARNING\<close> (30) and those of the stdout handler
  exactly when its level is below \<open>WARNING\<close>, so it passes exactly one of the two.
\<close>

theorem default_stream_filters_partition:
  assumes valid: "self < length (objects (run ops (initial_world f tz u t st)))"
  shows
   "(let s = run ops (initial_world f tz u t st);
         res = init_default_stream_logger self debug verbose s;
         s' = snd res; new = length (handler_objs s);
         out = handler_objs s' ! new; err = handler_objs s' ! Suc new
     in fst res = Inr ()
        \<and> lg_handlers (loggers s' (lm_logger (objects s ! self)))
             = lg_handlers (loggers s (lm_logger (objects s ! self))) @ [new, Suc new]
        \<and> length (handler_objs s') = Suc (Suc new)
        \<and> h_target out = Stream Stdout \<and> h_target err = Stream Stderr
        \<and> handler_filter err r = (WARNING \<le> levelno r) \<and> WARNING = 30
        \<and> handler_filter out r = (levelno r < WARNING)
        \<and> handler_filter out r \<noteq> handler_filter err r)"
proof -
  define s where "s = run ops (initial_world f tz u t st)"
  have inv: "invariant (\<lambda>n. False) s" unfolding s_def by (rule reachable_invariant)
  from valid have v: "self < length (objects s)" by (simp add: s_def)
  from inv have alloc: "\<forall>h \<in> set (lg_handlers (loggers s (lm_logger (objects s ! self)))).
                    h < length (handler_objs s)"
    by (simp add: invariant_def handlers_allocated_def)
  from inv v have vr: "verbose \<longrightarrow> nameToLevel s (KStr ''VERBOSE'') \<noteq> None"
    by (auto simp: invariant_def verbose_registered_def)
  from init_default_stream_logger_effect [OF v alloc vr, of debug]
  obtain s' h1 h2 where
        r: "init_default_stream_logger self debug verbose s = (Inr (), s')"
    and hs: "handler_objs s' = handler_objs s @ [h1, h2]"
    and h1: "h_target h1 = Stream Stdout" "h_filters h1 = [CustomLogFilter (\<lambda>lvl. lvl < WARNING)]"
    and h2: "h_target h2 = Stream Stderr" "h_filters h2 = [CustomLogFilter (\<lambda>lvl. lvl \<ge> WARNING)]"
    and lg: "loggers s' = (loggers s)
              (lm_logger (objects s ! self) :=
                 (loggers s (lm_logger (objects s ! self)))
                   \<lparr>lg_handlers := lg_handlers (loggers s (lm_logger (objects s ! self)))
                       @ [length (handler_objs s), Suc (length (handler_objs s))]\<rparr>)"
    by blast
  have n0: "(handler_objs s @ [h1, h2]) ! length (handler_objs s) = h1"
    by (simp add: nth_append)
  have n1: "(handler_objs s @ [h1, h2]) ! Suc (length (handler_objs s)) = h2"
    by (simp add: nth_append)
  show ?thesis
    unfolding Let_def s_def [symmetric]
    by (simp add: r hs lg n0 n1 h1 h2 handler_filter_def WARNING_def not_le)
qed

theorem default_stream_filters_partition_witness:
  "0 < length (objects world1)
   \<and> fst (init_default_stream_logger 0 False False world1) = Inr ()
   \<and> lg_handlers (loggers (snd (init_default_stream_logger 0 False False world1)) []) = [1, 2]
   \<and> h_target (handler_objs (snd (init_default_stream_logger 0 False False world1)) ! 1)
       = Stream Stdout
   \<and> h_target (handler_objs (snd (init_default_stream_logger 0 False False world1)) ! 2)
       = Stream Stderr
   \<and> handler_filter (handler_objs (snd (init_default_stream_logger 0 False False world1)) ! 1)
        \<lparr>levelno = 20, rec_red = False\<rparr>
   \<and> \<not> handler_filter (handler_objs (snd (init_default_stream_logger 0 False False world1)) ! 2)
        \<lparr>levelno = 20, rec_red = False\<rparr>
   \<and> handler_filter (handler_objs (snd (init_default_stream_logger 0 False False world1)) ! 2)
        \<lparr>levelno = 30, rec_red = False\<rparr>"
proof -
  have w: "run [Construct None None None True]
              (initial_world fs0 ''UTC'' ''root'' 1700000000 [Some ''log_handling'', Some ''app''])
           = world1"
    using run_construct_world0 by (simp add: world0_def)
  have v: "0 < length (objects (run [Construct None None None True]
              (initial_world fs0 ''UTC'' ''root'' 1700000000 [Some ''log_handling'', Some ''app''])))"
    by (simp add: w world1_objects)
  show ?thesis
    using default_stream_filters_partition [OF v, where debug = False and verbose = False
        and r = "\<lparr>levelno = 20, rec_red = False\<rparr>"]
      default_stream_filters_partition [OF v, where debug = False and verbose = False
        and r = "\<lparr>levelno = 30, rec_red = False\<rparr>"]
    by (simp add: w Let_def world1_objects world1_tables numeral_2_eq_2)
qed


lemma registry_simps:
  "registry s None = default_instance s"
  "registry s (Some n) = instances s n"
  by (simp_all add: registry_def)

lemma create_default_stream_logger_ok:
  assumes inv: "invariant D s"
  shows "\<exists>s'. create_default_stream_logger debug verbose args s = (Inr (length (objects s)), s')
            \<and> registry s' = (registry s)(c_name args := Some (length (objects s)))
            \<and> length (objects s') = Suc (length (objects s))"
proof -
  define sa where "sa = snd (LogManager_init (c_name args) (c_entry_fmt args) (c_date_fmt args)
                               (c_replace_handlers args) s)"
  have i: "LogManager_init (c_name args) (c_entry_fmt args) (c_date_fmt args)
             (c_replace_handlers args) s = (Inr (length (objects s)), sa)"
    using init_fst [of "c_name args" "c_entry_fmt args" "c_date_fmt args"
                       "c_replace_handlers args" s]
    by (cases "LogManager_init (c_name args) (c_entry_fmt args) (c_date_fmt args)
             (c_replace_handlers args) s") (simp add: sa_def)
  have inva: "invariant D sa" unfolding sa_def using inv by (rule init_invariant)
  obtain m where o: "objects sa = objects s @ [m]"
    using init_objects [of "c_name args" "c_entry_fmt args" "c_date_fmt args"
                       "c_replace_handlers args" s] by (auto simp: sa_def)
  have v: "length (objects s) < length (objects sa)" by (simp add: o)
  have reg: "registry sa = (registry s)(c_name args := Some (length (objects s)))"
    by (simp add: sa_def init_registry)
  from inva have alloc: "\<forall>h \<in> set (lg_handlers (loggers sa
           (lm_logger (objects sa ! length (objects s))))). h < length (handler_objs sa)"
    by (simp add: invariant_def handlers_allocated_def)
  from inva v have vr: "verbose \<longrightarrow> nameToLevel sa (KStr ''VERBOSE'') \<noteq> None"
    by (auto simp: invariant_def verbose_registered_def)
  from init_default_stream_logger_effect [OF v alloc vr, of debug]
  obtain sb where r: "init_default_stream_logger (length (objects s)) debug verbose sa
                        = (Inr (), sb)"
    and cfg: "config sb = config sa"
    by blast
  from cfg have "registry sb = registry sa" by (rule registry_config)
  moreover from cfg have "objects sb = objects sa" by (simp add: config_def)
  moreover have "create_default_stream_logger debug verbose args s
                   = (Inr (length (objects s)), sb)"
    by (simp add: create_default_stream_logger_def bind_def i r return_val_def)
  ultimately show ?thesis using reg o by simp
qed

lemma get_instance_hit:
  "registry s name = Some r \<Longrightarrow>
     get_instance name debug verbose third ef df rh s = (Inr (Some r), s)"
  by (cases name) (simp_all add: get_instance_def registry_simps)

lemma get_instance_miss:
  assumes inv: "invariant D s" and miss: "registry s name = None"
  shows "\<exists>s1. get_instance name debug verbose None ef df rh s
                 = (Inr (Some (length (objects s))), s1)
            \<and> registry s1 name = Some (length (objects s))
            \<and> length (objects s) < length (objects s1)"
proof (cases name)
  case None
  from create_default_stream_logger_ok [OF inv, of debug verbose
        "\<lparr>c_name = None, c_entry_fmt = ef, c_date_fmt = df, c_replace_handlers = rh\<rparr>"]
  obtain s' where c: "create_default_stream_logger debug verbose
        \<lparr>c_name = None, c_entry_fmt = ef, c_date_fmt = df, c_replace_handlers = rh\<rparr> s
          = (Inr (length (objects s)), s')"
    and reg: "registry s' = (registry s)(None := Some (length (objects s)))"
    and len: "length (objects s') = Suc (length (objects s))"
    by auto
  from reg have d: "default_instance s' = Some (length (objects s))"
    using registry_simps(1) [of s'] by simp
  from miss None have "default_instance s = None" by (simp add: registry_simps)
  with None c d reg len show ?thesis
    by (simp add: get_instance_def bind_def registry_simps)
next
  case (Some n)
  from create_default_stream_logger_ok [OF inv, of debug verbose
        "\<lparr>c_name = Some n, c_entry_fmt = ef, c_date_fmt = df, c_replace_handlers = rh\<rparr>"]
  obtain s' where c: "create_default_stream_logger debug verbose
        \<lparr>c_name = Some n, c_entry_fmt = ef, c_date_fmt = df, c_replace_handlers = rh\<rparr> s
          = (Inr (length (objects s)), s')"
    and reg: "registry s' = (registry s)(Some n := Some (length (objects s)))"
    and len: "length (objects s') = Suc (length (objects s))"
    by auto
  from reg have d: "instances s' n = Some (length (objects s))"
    using registry_simps(2) [of s' n] by simp
  from miss Some have "instances s n = None" by (simp add: registry_simps)
  with Some c d reg len show ?thesis
    by (simp add: get_instance_def bind_def registry_simps)
qed

subsection \<open>The registry\<close>

text \<open>
  C2. If the registry has an instance for the name (\<open>None\<close> included), \<open>get_instance\<close>
  returns that instance and leaves the whole state as it is, whatever the other
  arguments are: nothing is constructed or configured. And in every reachable state a
  call \<open>get_instance(name, ...)\<close> (without a third positional argument, which the
  constructor would take as its name) returns an existing instance, after which any
  call with the same name returns the same instance and changes nothing.
\<close>

theorem get_instance_idempotent:
  "(registry s name = Some r \<longrightarrow>
      get_instance name debug verbose third entry_fmt date_fmt replace_handlers s
        = (Inr (Some r), s))
   \<and> (\<exists>i s1. get_instance name debug verbose None entry_fmt date_fmt replace_handlers
                 (run ops (initial_world f tz u t st)) = (Inr (Some i), s1)
            \<and> i < length (objects s1) \<and> registry s1 name = Some i
            \<and> get_instance name debug' verbose' third' entry_fmt' date_fmt' replace_handlers' s1
                = (Inr (Some i), s1))"
proof -
  define s0 where "s0 = run ops (initial_world f tz u t st)"
  have inv: "invariant (\<lambda>n. False) s0" unfolding s0_def by (rule reachable_invariant)
  have "\<exists>i s1. get_instance name debug verbose None entry_fmt date_fmt replace_handlers s0
                 = (Inr (Some i), s1)
            \<and> i < length (objects s1) \<and> registry s1 name = Some i"
  proof (cases "registry s0 name")
    case None
    from get_instance_miss [OF inv None] show ?thesis by blast
  next
    case (Some i)
    with inv have "i < length (objects s0)" by (auto simp: invariant_def registry_valid_def)
    with Some get_instance_hit [OF Some] show ?thesis by blast
  qed
  then obtain i s1 where
    a: "get_instance name debug verbose None entry_fmt date_fmt replace_handlers s0
          = (Inr (Some i), s1)"
    and b: "i < length (objects s1)" and c: "registry s1 name = Some i"
    by blast
  from get_instance_hit [OF c]
  have "get_instance name debug' verbose' third' entry_fmt' date_fmt' replace_handlers' s1
          = (Inr (Some i), s1)" .
  with a b c show ?thesis
    unfolding s0_def by (auto simp: get_instance_hit)
qed

theorem get_instance_idempotent_witness:
  "registry world1 None = Some 0
   \<and> get_instance None True True (Some (Some ''x'')) None None False world1 = (Inr (Some 0), world1)
   \<and> (\<exists>i s1. get_instance (Some ''app'') False False None None None True world0
                 = (Inr (Some i), s1)
            \<and> get_instance (Some ''app'') True False None None None True s1 = (Inr (Some i), s1))"
proof -
  have r: "registry world1 None = Some 0"
    by (simp add: world1_def init_registry world0_tables)
  have w: "run [] (initial_world fs0 ''UTC'' ''root'' 1700000000
                    [Some ''log_handling'', Some ''app'']) = world0"
    by (simp add: run_def world0_def)
  note inst = get_instance_idempotent [where s = world1 and name = None and r = 0
        and debug = True and verbose = True and third = "Some (Some ''x'')"
        and entry_fmt = None and date_fmt = None and replace_handlers = False]
  from r inst have a: "get_instance None True True (Some (Some ''x'')) None None False world1
                         = (Inr (Some 0), world1)"
    by blast
  from get_instance_idempotent [where name = "Some ''app''" and debug = False
        and verbose = False and entry_fmt = None and date_fmt = None and replace_handlers = True
        and ops = "[]" and f = fs0 and tz = "''UTC''" and u = "''root''" and t = 1700000000
        and st = "[Some ''log_handling'', Some ''app'']"
        and debug' = True and verbose' = False and third' = None and entry_fmt' = None
        and date_fmt' = None and replace_handlers' = True]
  have b: "\<exists>i s1. get_instance (Some ''app'') False False None None None True world0
                 = (Inr (Some i), s1)
            \<and> get_instance (Some ''app'') True False None None None True s1 = (Inr (Some i), s1)"
    unfolding w by blast
  from r a b show ?thesis by blast
qed

text \<open>
  C3. The constructor returns a new object (its reference denotes no object before
  and the object with the given name after) and leaves the registry mapping the name
  to it, in the default slot for \<open>None\<close> and in the named mapping otherwise, with every
  other entry as it was. And whatever operations run afterwards in a reachable state,
  a name that the registry maps stays mapped: no entry is removed.
\<close>

theorem registry_never_shrinks:
  "(let res = LogManager_init name entry_fmt date_fmt replace_handlers s;
        s' = snd res; new = length (objects s)
    in fst res = Inr new
       \<and> length (objects s') = Suc new \<and> lm_name (objects s' ! new) = name
       \<and> (case name of None \<Rightarrow> default_instance s' | Some n \<Rightarrow> instances s' n) = Some new
       \<and> (\<forall>n. n \<noteq> name \<longrightarrow> registry s' n = registry s n))
   \<and> (registry (run ops (initial_world f tz u t st)) n \<noteq> None
        \<longrightarrow> registry (run ops' (run ops (initial_world f tz u t st))) n \<noteq> None)"
proof -
  obtain m where o: "objects (snd (LogManager_init name entry_fmt date_fmt replace_handlers s))
                       = objects s @ [m]" and nm: "lm_name m = name"
    using init_objects [of name entry_fmt date_fmt replace_handlers s] by blast
  have reg: "registry (snd (LogManager_init name entry_fmt date_fmt replace_handlers s))
               = (registry s)(name := Some (length (objects s)))"
    by (rule init_registry)
  have first: "(let res = LogManager_init name entry_fmt date_fmt replace_handlers s;
        s' = snd res; new = length (objects s)
    in fst res = Inr new
       \<and> length (objects s') = Suc new \<and> lm_name (objects s' ! new) = name
       \<and> (case name of None \<Rightarrow> default_instance s' | Some n \<Rightarrow> instances s' n) = Some new
       \<and> (\<forall>n. n \<noteq> name \<longrightarrow> registry s' n = registry s n))"
    using reg nm
    by (simp add: Let_def init_fst o registry_def [symmetric])
  have second: "registry (run ops' (run ops (initial_world f tz u t st))) n \<noteq> None"
    if "registry (run ops (initial_world f tz u t st)) n \<noteq> None"
  proof -
    have "invariant (\<lambda>k. k = n) (run ops (initial_world f tz u t st))"
      using reachable_invariant [of ops f tz u t st] that
      by (rule_tac invariant_weaken) auto
    then have "invariant (\<lambda>k. k = n) (run ops' (run ops (initial_world f tz u t st)))"
      by (rule run_invariant)
    then show ?thesis by (simp add: invariant_def)
  qed
  from first second show ?thesis by blast
qed

theorem registry_never_shrinks_witness:
  "default_instance world1 = Some 0 \<and> length (objects world1) = 1
   \<and> registry (run [Construct None None None True] world0) None \<noteq> None
   \<and> registry (run [Construct (Some ''app'') None None True, AddLevel 0 5 ''TRACE'' None]
        (run [Construct None None None True] world0)) None \<noteq> None"
proof -
  have r: "registry world1 None = Some 0"
    by (simp add: world1_def init_registry world0_tables)
  then show ?thesis
    using registry_never_shrinks [where s = world0 and name = None and entry_fmt = None
        and date_fmt = None and replace_handlers = True
        and ops = "[Construct None None None True]" and n = None
        and ops' = "[Construct (Some ''app'') None None True, AddLevel 0 5 ''TRACE'' None]"
        and f = fs0 and tz = "''UTC''" and u = "''root''" and t = 1700000000
        and st = "[Some ''log_handling'', Some ''app'']"]
      run_construct_world0
    by (simp add: Let_def world0_def [symmetric] world1_def [symmetric] world0_tables)
qed



lemma html_escape_Nil [simp]: "html_escape [] = []"
  by (simp add: html_escape_def)












subsection \<open>The demo server\<close>





end
